theory Spec2Isabelle
  imports Complex_Main "HOL-Library.Word"
begin

section \<open>The environment of the program\<close>

text \<open>
  \<^verbatim>\<open>src/main.c\<close> is one translation unit: \<^verbatim>\<open>read_entire_file\<close>, two resize callbacks,
  \<^verbatim>\<open>process_input\<close> and \<^verbatim>\<open>main\<close>. Everything it does goes through the C library, GLFW,
  GLAD and OpenGL. Those are not part of the repository, so what they answer is a
  parameter of the model (the record \<open>env\<close>), and every call the program makes is
  recorded, in program order, in a trace of events.
\<close>

type_synonym byte = "8 word"
type_synonym size_t = "64 word"
type_synonym addr = nat

text \<open>The symbolic constants of the OpenGL and GLFW headers that the program names,
  and \<open>GL_LINK_STATUS\<close>, which it does not name.\<close>

datatype glenum =
    GL_VERTEX_SHADER | GL_FRAGMENT_SHADER
  | GL_COMPILE_STATUS | GL_LINK_STATUS
  | GL_ARRAY_BUFFER | GL_ELEMENT_ARRAY_BUFFER | GL_STATIC_DRAW
  | GL_FLOAT | GL_UNSIGNED_INT | GL_FALSE
  | GL_TRIANGLES | GL_COLOR_BUFFER_BIT

datatype glfw_hint = GLFW_CONTEXT_VERSION_MAJOR | GLFW_CONTEXT_VERSION_MINOR

datatype glfw_key = GLFW_KEY_ESCAPE

text \<open>Flat memory with a record of the live allocations. A store through a pointer
  \<open>p\<close> at index \<open>i\<close> always lands at address \<open>p + i\<close>, as on the machine; when \<open>i\<close> is
  not inside the block that \<open>p\<close> is the base of, the store is logged in \<open>oob_stores\<close>.\<close>

record heap =
  mem :: "addr \<Rightarrow> byte"
  blocks :: "(addr \<times> nat) list"
  oob_stores :: "(addr \<times> nat) list"

text \<open>What the outside world answers. A function that writes through an out-parameter
  answers \<open>None\<close> when it writes nothing (it raised a GL error), so the variable keeps its
  previous, possibly indeterminate, value. \<open>indeterminate_int\<close> and
  \<open>indeterminate_buf\<close> give the garbage an uninitialised local of that name starts with,
  \<open>glGenVertexArrays_out\<close> and \<open>glGenBuffers_out\<close> the object name the driver writes to
  the variable of that name.\<close>

record env =
  files :: "string \<Rightarrow> byte list option"
  allocator :: "(addr \<times> nat) list \<Rightarrow> nat \<Rightarrow> addr option"
  start_heap :: heap
  indeterminate_int :: "string \<Rightarrow> int"
  indeterminate_buf :: "string \<Rightarrow> byte list"
  glfwInit_ret :: int
  glfwCreateWindow_ret :: "addr option"
  gladLoadGLLoader_ret :: int
  glCreateShader_ret :: "glenum \<Rightarrow> nat"
  glCreateProgram_ret :: nat
  glGetShaderiv_out :: "nat \<Rightarrow> glenum \<Rightarrow> int option"
  glGetShaderInfoLog_out :: "nat \<Rightarrow> nat \<Rightarrow> byte list option"
  glGetProgramiv_out :: "nat \<Rightarrow> glenum \<Rightarrow> int option"
  glGetProgramInfoLog_out :: "nat \<Rightarrow> nat \<Rightarrow> byte list option"
  glGenVertexArrays_out :: "string \<Rightarrow> nat"
  glGenBuffers_out :: "string \<Rightarrow> nat"

section \<open>The C library calls of \<^verbatim>\<open>read_entire_file\<close>\<close>

record FILE =
  content :: "byte list"
  pos :: nat

datatype whence = SEEK_SET | SEEK_END

text \<open>\<^verbatim>\<open>fopen(filename, "rb")\<close>: \<open>None\<close> is the null pointer, returned for a missing file.\<close>

definition fopen :: "env \<Rightarrow> string \<Rightarrow> FILE option" where
  "fopen e filename =
     (case files e filename of
        None \<Rightarrow> None
      | Some bs \<Rightarrow> Some \<lparr>content = bs, pos = 0\<rparr>)"

text \<open>\<^verbatim>\<open>ftell\<close> returns a \<^verbatim>\<open>long\<close>; the program stores it in a \<^verbatim>\<open>size_t\<close> (64 bits).\<close>

definition ftell :: "FILE \<Rightarrow> size_t" where
  "ftell f = of_nat (pos f)"

definition fseek :: "FILE \<Rightarrow> size_t \<Rightarrow> whence \<Rightarrow> FILE" where
  "fseek f off w =
     (case w of
        SEEK_SET \<Rightarrow> f\<lparr>pos := unat off\<rparr>
      | SEEK_END \<Rightarrow> f\<lparr>pos := length (content f) + unat off\<rparr>)"

text \<open>\<^verbatim>\<open>malloc(n)\<close>: the allocator picks the base address, or fails with the null pointer.
  The bytes of the new block keep whatever the memory held.\<close>

definition malloc :: "env \<Rightarrow> nat \<Rightarrow> heap \<Rightarrow> addr option \<times> heap" where
  "malloc e n h =
     (case allocator e (blocks h) n of
        None \<Rightarrow> (None, h)
      | Some p \<Rightarrow> (Some p, h\<lparr>blocks := (p, n) # blocks h\<rparr>))"

definition in_bounds :: "heap \<Rightarrow> addr \<Rightarrow> nat \<Rightarrow> bool" where
  "in_bounds h p i = (case map_of (blocks h) p of None \<Rightarrow> False | Some n \<Rightarrow> i < n)"

text \<open>\<^verbatim>\<open>p[i] = v\<close>.\<close>

definition store :: "addr \<Rightarrow> nat \<Rightarrow> byte \<Rightarrow> heap \<Rightarrow> heap" where
  "store p i v h =
     h\<lparr>mem := (mem h)(p + i := v),
       oob_stores := oob_stores h @ (if in_bounds h p i then [] else [(p, i)])\<rparr>"

fun store_bytes :: "addr \<Rightarrow> nat \<Rightarrow> byte list \<Rightarrow> heap \<Rightarrow> heap" where
  "store_bytes p i [] h = h"
| "store_bytes p i (b # bs) h = store_bytes p (Suc i) bs (store p i b h)"

text \<open>\<^verbatim>\<open>fread(p, 1, n, f)\<close>: copies at most \<open>n\<close> bytes, from the file position on, to
  \<open>p[0]\<close>, \<open>p[1]\<close>, ...\<close>

definition fread :: "addr \<Rightarrow> nat \<Rightarrow> FILE \<Rightarrow> heap \<Rightarrow> heap" where
  "fread p n f h = store_bytes p 0 (take n (drop (pos f) (content f))) h"

section \<open>\<^verbatim>\<open>read_entire_file\<close> (main.c, lines 10 to 29)\<close>

record file_contents =
  data :: addr
  size_fc :: size_t

text \<open>The program checks neither the stream nor the buffer for null. A null stream is
  handed to the first \<^verbatim>\<open>ftell\<close> (undefined behaviour by the C standard), a null buffer is
  written through by the store of the terminator at the latest. Each is a fault, and the
  function does not return. \<^verbatim>\<open>fclose\<close> changes nothing the function returns and has no
  counterpart here. The field \<^verbatim>\<open>size\<close> is \<open>size_fc\<close>, the local \<^verbatim>\<open>result\<close> is built at the
  end from \<open>data_v\<close> and \<open>size_v\<close>.\<close>

datatype fault = NullStream | NullBuffer

definition read_entire_file :: "env \<Rightarrow> string \<Rightarrow> heap \<Rightarrow> fault + (file_contents \<times> heap)" where
  "read_entire_file e filename h =
     (case fopen e filename of
        None \<Rightarrow> Inl NullStream
      | Some file \<Rightarrow>
          let cur_pos = ftell file;
              file = fseek file 0 SEEK_END;
              size_v = ftell file + 1;
              file = fseek file cur_pos SEEK_SET;
              (p, h) = malloc e (unat size_v) h
          in (case p of
                None \<Rightarrow> Inl NullBuffer
              | Some data_v \<Rightarrow>
                  let h = fread data_v (unat (size_v - 1)) file h;
                      h = store data_v (unat size_v) 0 h
                  in Inr (\<lparr>data = data_v, size_fc = size_v\<rparr>, h)))"

section \<open>GLFW, GLAD and OpenGL, as \<^verbatim>\<open>main\<close> uses them\<close>

datatype callback = Window_size_callback | Framebuffer_size_callback

text \<open>Vertex data is carried as the values of the source's literals; the program does
  no arithmetic on them.\<close>

datatype payload = Floats "real list" | UInts "nat list"

datatype event =
    GlfwInit
  | GlfwWindowHint glfw_hint int
  | GlfwCreateWindow int int string
  | GlfwTerminate
  | GlfwMakeContextCurrent addr
  | GlfwSetFramebufferSizeCallback addr callback
  | GladLoadGLLoader
  | Printf string "byte list list"
  | GlCreateShader glenum
  | GlShaderSource nat nat addr
  | GlCompileShader nat
  | GlGetShaderiv nat glenum
  | GlGetShaderInfoLog nat nat
  | GlCreateProgram
  | GlAttachShader nat nat
  | GlLinkProgram nat
  | GlGetProgramiv nat glenum
  | GlGetProgramInfoLog nat nat
  | GlUseProgram nat
  | GlDeleteShader nat
  | GlGenVertexArrays nat
  | GlGenBuffers nat
  | GlBindVertexArray nat
  | GlBindBuffer glenum nat
  | GlBufferData glenum nat payload glenum
  | GlVertexAttribPointer nat nat glenum glenum nat nat
  | GlEnableVertexAttribArray nat
  | GlViewport int int int int
  | GlfwWindowShouldClose addr
  | GlfwGetKey addr glfw_key
  | GlfwSetWindowShouldClose addr bool
  | GlClearColor real real real real
  | GlClear glenum
  | GlDrawElements glenum nat glenum nat
  | GlfwSwapBuffers addr
  | GlfwPollEvents

text \<open>The globals \<^verbatim>\<open>window_width\<close> and \<^verbatim>\<open>window_height\<close>; what GLFW holds for the
  one window (its close flag and the callbacks set on it); and the locals of \<^verbatim>\<open>main\<close>
  that are declared without an initialiser and written through an out-parameter.\<close>

record state =
  trace :: "event list"
  window_width :: int
  window_height :: int
  should_close :: bool
  framebuffer_size_fun :: "callback option"
  window_size_fun :: "callback option"
  vs_success :: int
  vs_infolog :: "byte list"
  fs_success :: int
  fs_infolog :: "byte list"
  sp_success :: int
  sp_infolog :: "byte list"

text \<open>The state \<^verbatim>\<open>main\<close> starts in: nothing called yet, the globals at their
  initialisers (lines 31 and 32), the locals holding garbage.\<close>

definition init_state :: "env \<Rightarrow> state" where
  "init_state e =
     \<lparr>trace = [], window_width = 1280, window_height = 720, should_close = False,
      framebuffer_size_fun = None, window_size_fun = None,
      vs_success = indeterminate_int e ''vs_success'',
      vs_infolog = indeterminate_buf e ''vs_infolog'',
      fs_success = indeterminate_int e ''fs_success'',
      fs_infolog = indeterminate_buf e ''fs_infolog'',
      sp_success = indeterminate_int e ''sp_success'',
      sp_infolog = indeterminate_buf e ''sp_infolog''\<rparr>"

text \<open>A call whose only effect in the model is that it was made.\<close>

definition call :: "event \<Rightarrow> state \<Rightarrow> state" where
  "call ev s = s\<lparr>trace := trace s @ [ev]\<rparr>"

definition glfwInit :: "env \<Rightarrow> state \<Rightarrow> int \<times> state" where
  "glfwInit e s = (glfwInit_ret e, call GlfwInit s)"

definition glfwCreateWindow ::
  "env \<Rightarrow> int \<Rightarrow> int \<Rightarrow> string \<Rightarrow> state \<Rightarrow> addr option \<times> state" where
  "glfwCreateWindow e width height title s =
     (glfwCreateWindow_ret e, call (GlfwCreateWindow width height title) s)"

definition glfwSetFramebufferSizeCallback :: "addr \<Rightarrow> callback \<Rightarrow> state \<Rightarrow> state" where
  "glfwSetFramebufferSizeCallback window cb s =
     call (GlfwSetFramebufferSizeCallback window cb) (s\<lparr>framebuffer_size_fun := Some cb\<rparr>)"

definition gladLoadGLLoader :: "env \<Rightarrow> state \<Rightarrow> int \<times> state" where
  "gladLoadGLLoader e s = (gladLoadGLLoader_ret e, call GladLoadGLLoader s)"

definition glCreateShader :: "env \<Rightarrow> glenum \<Rightarrow> state \<Rightarrow> nat \<times> state" where
  "glCreateShader e kind s = (glCreateShader_ret e kind, call (GlCreateShader kind) s)"

definition glCreateProgram :: "env \<Rightarrow> state \<Rightarrow> nat \<times> state" where
  "glCreateProgram e s = (glCreateProgram_ret e, call GlCreateProgram s)"

text \<open>The getters take the current value of the variable behind the out-parameter and
  return its value after the call: what the driver wrote, or the old value.\<close>

definition out_param :: "'a option \<Rightarrow> 'a \<Rightarrow> 'a" where
  "out_param written old = (case written of None \<Rightarrow> old | Some v \<Rightarrow> v)"

definition glGetShaderiv :: "env \<Rightarrow> nat \<Rightarrow> glenum \<Rightarrow> int \<Rightarrow> state \<Rightarrow> int \<times> state" where
  "glGetShaderiv e shader pname params s =
     (out_param (glGetShaderiv_out e shader pname) params,
      call (GlGetShaderiv shader pname) s)"

definition glGetShaderInfoLog ::
  "env \<Rightarrow> nat \<Rightarrow> nat \<Rightarrow> byte list \<Rightarrow> state \<Rightarrow> byte list \<times> state" where
  "glGetShaderInfoLog e shader bufSize infoLog s =
     (out_param (glGetShaderInfoLog_out e shader bufSize) infoLog,
      call (GlGetShaderInfoLog shader bufSize) s)"

definition glGetProgramiv :: "env \<Rightarrow> nat \<Rightarrow> glenum \<Rightarrow> int \<Rightarrow> state \<Rightarrow> int \<times> state" where
  "glGetProgramiv e program pname params s =
     (out_param (glGetProgramiv_out e program pname) params,
      call (GlGetProgramiv program pname) s)"

definition glGetProgramInfoLog ::
  "env \<Rightarrow> nat \<Rightarrow> nat \<Rightarrow> byte list \<Rightarrow> state \<Rightarrow> byte list \<times> state" where
  "glGetProgramInfoLog e program bufSize infoLog s =
     (out_param (glGetProgramInfoLog_out e program bufSize) infoLog,
      call (GlGetProgramInfoLog program bufSize) s)"

text \<open>\<^verbatim>\<open>glGenVertexArrays(1, &v)\<close> and \<^verbatim>\<open>glGenBuffers(1, &v)\<close>: the name the driver
  writes to the variable \<open>v\<close>.\<close>

definition glGenVertexArrays :: "env \<Rightarrow> nat \<Rightarrow> string \<Rightarrow> state \<Rightarrow> nat \<times> state" where
  "glGenVertexArrays e n v s = (glGenVertexArrays_out e v, call (GlGenVertexArrays n) s)"

definition glGenBuffers :: "env \<Rightarrow> nat \<Rightarrow> string \<Rightarrow> state \<Rightarrow> nat \<times> state" where
  "glGenBuffers e n v s = (glGenBuffers_out e v, call (GlGenBuffers n) s)"

definition glfwWindowShouldClose :: "addr \<Rightarrow> state \<Rightarrow> bool \<times> state" where
  "glfwWindowShouldClose window s = (should_close s, call (GlfwWindowShouldClose window) s)"

definition glfwSetWindowShouldClose :: "addr \<Rightarrow> bool \<Rightarrow> state \<Rightarrow> state" where
  "glfwSetWindowShouldClose window v s =
     call (GlfwSetWindowShouldClose window v) (s\<lparr>should_close := v\<rparr>)"

text \<open>What one pass of the render loop meets: the state of the keys when
  \<^verbatim>\<open>glfwGetKey\<close> samples them, and the events the system delivers to \<^verbatim>\<open>glfwPollEvents\<close>.\<close>

datatype os_event = CloseRequested | FramebufferResized int int | WindowResized int int

record frame =
  key_state :: "glfw_key \<Rightarrow> int"
  os_events :: "os_event list"

definition GLFW_PRESS :: int where
  "GLFW_PRESS = 1"

definition GLFW_RELEASE :: int where
  "GLFW_RELEASE = 0"

definition glfwGetKey :: "frame \<Rightarrow> addr \<Rightarrow> glfw_key \<Rightarrow> state \<Rightarrow> int \<times> state" where
  "glfwGetKey f window k s = (key_state f k, call (GlfwGetKey window k) s)"

section \<open>The callbacks and \<^verbatim>\<open>process_input\<close> (main.c, lines 31 to 53)\<close>

definition window_size_callback :: "int \<Rightarrow> int \<Rightarrow> state \<Rightarrow> state" where
  "window_size_callback width height s =
     (let s = s\<lparr>window_width := width\<rparr>;
          s = s\<lparr>window_height := height\<rparr>
      in call (GlViewport 0 0 (window_width s) (window_height s)) s)"

definition framebuffer_size_callback :: "int \<Rightarrow> int \<Rightarrow> state \<Rightarrow> state" where
  "framebuffer_size_callback width height s = call (GlViewport 0 0 width height) s"

definition process_input :: "frame \<Rightarrow> addr \<Rightarrow> state \<Rightarrow> state" where
  "process_input f window s =
     (let (k, s) = glfwGetKey f window GLFW_KEY_ESCAPE s
      in if k = GLFW_PRESS then glfwSetWindowShouldClose window True s else s)"

text \<open>\<^verbatim>\<open>glfwPollEvents\<close>, as GLFW documents it: a close request sets the close flag of the
  window (no close callback is set), a change of size runs the callback set for it, if
  one is set.\<close>

fun invoke :: "callback \<Rightarrow> int \<Rightarrow> int \<Rightarrow> state \<Rightarrow> state" where
  "invoke Window_size_callback width height s = window_size_callback width height s"
| "invoke Framebuffer_size_callback width height s = framebuffer_size_callback width height s"

fun deliver :: "os_event \<Rightarrow> state \<Rightarrow> state" where
  "deliver CloseRequested s = s\<lparr>should_close := True\<rparr>"
| "deliver (FramebufferResized width height) s =
     (case framebuffer_size_fun s of None \<Rightarrow> s | Some cb \<Rightarrow> invoke cb width height s)"
| "deliver (WindowResized width height) s =
     (case window_size_fun s of None \<Rightarrow> s | Some cb \<Rightarrow> invoke cb width height s)"

definition glfwPollEvents :: "frame \<Rightarrow> state \<Rightarrow> state" where
  "glfwPollEvents f s = fold deliver (os_events f) (call GlfwPollEvents s)"

section \<open>\<^verbatim>\<open>main\<close> (main.c, lines 55 to 215)\<close>

definition sizeof_float :: nat where
  "sizeof_float = 4"

definition sizeof_unsigned_int :: nat where
  "sizeof_unsigned_int = 4"

definition vertices :: "real list" where
  "vertices =
     [- 0.5, - 0.5, 0.0,
      0.5, - 0.5, 0.0,
      0.0, 0.5, 0.0]"

definition rect_vertices :: "real list" where
  "rect_vertices =
     [0.5, 0.5, 0.0,
      0.5, - 0.5, 0.0,
      - 0.5, - 0.5, 0.0,
      - 0.5, 0.5, 0.0]"

definition indices :: "nat list" where
  "indices =
     [0, 1, 3,
      1, 2, 3]"

text \<open>Lines 87 to 101.\<close>

definition compile_vertex_shader :: "env \<Rightarrow> file_contents \<Rightarrow> state \<Rightarrow> nat \<times> state" where
  "compile_vertex_shader e vs_code s =
     (let (vertex_shader, s) = glCreateShader e GL_VERTEX_SHADER s;
          s = call (GlShaderSource vertex_shader 1 (data vs_code)) s;
          s = call (GlCompileShader vertex_shader) s;
          (v, s) = glGetShaderiv e vertex_shader GL_COMPILE_STATUS (vs_success s) s;
          s = s\<lparr>vs_success := v\<rparr>;
          s = (if vs_success s = 0 then
                 let (l, s) = glGetShaderInfoLog e vertex_shader 512 (vs_infolog s) s;
                     s = s\<lparr>vs_infolog := l\<rparr>
                 in call (Printf ''ERROR::SHADER::VERTEX::COMPILATION_FAILED\<newline>%s\<newline>''
                            [vs_infolog s]) s
               else s)
      in (vertex_shader, s))"

text \<open>Lines 103 to 116.\<close>

definition compile_fragment_shader :: "env \<Rightarrow> file_contents \<Rightarrow> state \<Rightarrow> nat \<times> state" where
  "compile_fragment_shader e fs_code s =
     (let (fragment_shader, s) = glCreateShader e GL_FRAGMENT_SHADER s;
          s = call (GlShaderSource fragment_shader 1 (data fs_code)) s;
          s = call (GlCompileShader fragment_shader) s;
          (v, s) = glGetShaderiv e fragment_shader GL_COMPILE_STATUS (fs_success s) s;
          s = s\<lparr>fs_success := v\<rparr>;
          s = (if fs_success s = 0 then
                 let (l, s) = glGetShaderInfoLog e fragment_shader 512 (fs_infolog s) s;
                     s = s\<lparr>fs_infolog := l\<rparr>
                 in call (Printf ''ERROR::SHADER::FRAGMENT::COMPILATION_FAILED\<newline>%s\<newline>''
                            [fs_infolog s]) s
               else s)
      in (fragment_shader, s))"

text \<open>Lines 118 to 133.\<close>

definition link_program :: "env \<Rightarrow> nat \<Rightarrow> nat \<Rightarrow> state \<Rightarrow> nat \<times> state" where
  "link_program e vertex_shader fragment_shader s =
     (let (shader_program, s) = glCreateProgram e s;
          s = call (GlAttachShader shader_program vertex_shader) s;
          s = call (GlAttachShader shader_program fragment_shader) s;
          s = call (GlLinkProgram shader_program) s;
          (v, s) = glGetProgramiv e shader_program GL_COMPILE_STATUS (sp_success s) s;
          s = s\<lparr>sp_success := v\<rparr>;
          s = (if sp_success s = 0 then
                 let (l, s) = glGetProgramInfoLog e shader_program 512 (sp_infolog s) s;
                     s = s\<lparr>sp_infolog := l\<rparr>
                 in call (Printf ''ERROR::SHADER::PROGRAM::COMPILATION_FAILED\<newline>%s\<newline>''
                            [fs_infolog s]) s
               else s)
      in (shader_program, s))"

text \<open>Lines 142 to 159: the triangle of lines 81 to 85.\<close>

definition upload_triangle :: "env \<Rightarrow> state \<Rightarrow> state" where
  "upload_triangle e s =
     (let (VAO, s) = glGenVertexArrays e 1 ''VAO'' s;
          (VBO, s) = glGenBuffers e 1 ''VBO'' s;
          s = call (GlBindVertexArray VAO) s;
          s = call (GlBindBuffer GL_ARRAY_BUFFER VBO) s;
          s = call (GlBufferData GL_ARRAY_BUFFER (sizeof_float * length vertices)
                      (Floats vertices) GL_STATIC_DRAW) s;
          s = call (GlVertexAttribPointer 0 3 GL_FLOAT GL_FALSE (3 * sizeof_float) 0) s
      in call (GlEnableVertexAttribArray 0) s)"

text \<open>Lines 161 to 187: the rectangle.\<close>

definition upload_rectangle :: "env \<Rightarrow> state \<Rightarrow> nat \<times> state" where
  "upload_rectangle e s =
     (let (RECT_VAO, s) = glGenVertexArrays e 1 ''RECT_VAO'' s;
          (RECT_VBO, s) = glGenBuffers e 1 ''RECT_VBO'' s;
          s = call (GlBindVertexArray RECT_VAO) s;
          s = call (GlBindBuffer GL_ARRAY_BUFFER RECT_VBO) s;
          s = call (GlBufferData GL_ARRAY_BUFFER (sizeof_float * length rect_vertices)
                      (Floats rect_vertices) GL_STATIC_DRAW) s;
          (EBO, s) = glGenBuffers e 1 ''EBO'' s;
          s = call (GlBindBuffer GL_ELEMENT_ARRAY_BUFFER EBO) s;
          s = call (GlBufferData GL_ELEMENT_ARRAY_BUFFER (sizeof_unsigned_int * length indices)
                      (UInts indices) GL_STATIC_DRAW) s;
          s = call (GlVertexAttribPointer 0 3 GL_FLOAT GL_FALSE (3 * sizeof_float) 0) s;
          s = call (GlEnableVertexAttribArray 0) s
      in (RECT_VAO, s))"

text \<open>Lines 193 to 207.\<close>

definition render :: "nat \<Rightarrow> nat \<Rightarrow> state \<Rightarrow> state" where
  "render shader_program RECT_VAO s =
     (let s = call (GlClearColor 0.2 0.3 0.3 1.0) s;
          s = call (GlClear GL_COLOR_BUFFER_BIT) s;
          s = call (GlUseProgram shader_program) s;
          s = call (GlBindVertexArray RECT_VAO) s;
          s = call (GlDrawElements GL_TRIANGLES 6 GL_UNSIGNED_INT 0) s
      in call (GlBindVertexArray 0) s)"

text \<open>Lines 190 to 211: one pass through the body of the loop.\<close>

definition loop_body :: "frame \<Rightarrow> addr \<Rightarrow> nat \<Rightarrow> nat \<Rightarrow> state \<Rightarrow> state" where
  "loop_body f glfw_window shader_program RECT_VAO s =
     (let s = process_input f glfw_window s;
          s = render shader_program RECT_VAO s;
          s = call (GlfwSwapBuffers glfw_window) s
      in glfwPollEvents f s)"

text \<open>Line 189: \<^verbatim>\<open>while (!glfwWindowShouldClose(glfw_window))\<close>. The loop runs for as long
  as the flag stays unset; the model follows it through the passes given in the list.
  The result is \<open>True\<close> with the state at the exit of the loop, or \<open>False\<close> with the state
  after the last pass given, when the flag has not been set by then.\<close>

fun render_loop :: "frame list \<Rightarrow> addr \<Rightarrow> nat \<Rightarrow> nat \<Rightarrow> state \<Rightarrow> bool \<times> state" where
  "render_loop [] glfw_window shader_program RECT_VAO s =
     glfwWindowShouldClose glfw_window s"
| "render_loop (f # fs) glfw_window shader_program RECT_VAO s =
     (let (closing, s) = glfwWindowShouldClose glfw_window s
      in if closing then (True, s)
         else render_loop fs glfw_window shader_program RECT_VAO
                (loop_body f glfw_window shader_program RECT_VAO s))"

text \<open>How a run ends: \<^verbatim>\<open>main\<close> returns a value, or the process faults before that, or
  the loop is still running after the passes given.\<close>

datatype outcome = Returned int | Crashed fault | StillRunning

text \<open>Lines 81 to 187: everything between the two initialisations and the loop. The
  loop uses the program and the vertex array of the rectangle.\<close>

definition build_scene ::
  "env \<Rightarrow> file_contents \<Rightarrow> file_contents \<Rightarrow> state \<Rightarrow> nat \<times> nat \<times> state" where
  "build_scene e vs_code fs_code s =
     (let (vertex_shader, s) = compile_vertex_shader e vs_code s;
          (fragment_shader, s) = compile_fragment_shader e fs_code s;
          (shader_program, s) = link_program e vertex_shader fragment_shader s;
          s = call (GlUseProgram shader_program) s;
          s = call (GlDeleteShader vertex_shader) s;
          s = call (GlDeleteShader fragment_shader) s;
          s = upload_triangle e s;
          (RECT_VAO, s) = upload_rectangle e s
      in (shader_program, RECT_VAO, s))"

definition main :: "env \<Rightarrow> frame list \<Rightarrow> outcome \<times> state" where
  "main e frames =
     (let s = init_state e;
          h = start_heap e
      in case read_entire_file e ''../src/vertex_shader.glsl'' h of
           Inl f \<Rightarrow> (Crashed f, s)
         | Inr (vs_code, h) \<Rightarrow>
             (case read_entire_file e ''../src/fragment_shader.glsl'' h of
                Inl f \<Rightarrow> (Crashed f, s)
              | Inr (fs_code, h) \<Rightarrow>
                  let (initialised, s) = glfwInit e s;
                      s = call (GlfwWindowHint GLFW_CONTEXT_VERSION_MAJOR 3) s;
                      s = call (GlfwWindowHint GLFW_CONTEXT_VERSION_MINOR 3) s;
                      (glfw_window, s) =
                        glfwCreateWindow e (window_width s) (window_height s)
                          ''OpenGL experiment'' s
                  in (case glfw_window of
                        None \<Rightarrow>
                          let s = call (Printf ''Failed to create GLFW window\<newline>'' []) s;
                              s = call GlfwTerminate s
                          in (Returned (- 1), s)
                      | Some glfw_window \<Rightarrow>
                          let s = call (GlfwMakeContextCurrent glfw_window) s;
                              s = glfwSetFramebufferSizeCallback glfw_window
                                    Framebuffer_size_callback s;
                              (loaded, s) = gladLoadGLLoader e s
                          in if loaded = 0 then
                               let s = call (Printf ''Failed to initialize GLAD\<newline>'' []) s
                               in (Returned (- 1), s)
                             else
                               let (shader_program, RECT_VAO, s) =
                                     build_scene e vs_code fs_code s;
                                   (exited, s) =
                                     render_loop frames glfw_window shader_program RECT_VAO s
                               in if exited then (Returned 0, call GlfwTerminate s)
                                  else (StillRunning, s))))"

section \<open>A concrete run\<close>

text \<open>Two short shader files, an allocator that hands out blocks 64 bytes apart, a
  window and a loader that succeed, shaders that compile, and a driver that rejects the
  query of line 128 and so leaves the zero that \<^verbatim>\<open>sp_success\<close> happens to hold.\<close>

definition env0 :: env where
  "env0 =
     \<lparr>files = (\<lambda>name.
         if name = ''../src/vertex_shader.glsl'' then Some [118, 115]
         else if name = ''../src/fragment_shader.glsl'' then Some [102, 114, 97]
         else None),
      allocator = (\<lambda>bs n. Some (4096 + 64 * length bs)),
      start_heap = \<lparr>mem = (\<lambda>a. 205), blocks = [], oob_stores = []\<rparr>,
      indeterminate_int = (\<lambda>v. 0),
      indeterminate_buf = (\<lambda>v. [63, 0]),
      glfwInit_ret = 1,
      glfwCreateWindow_ret = Some 64,
      gladLoadGLLoader_ret = 1,
      glCreateShader_ret = (\<lambda>kind. if kind = GL_VERTEX_SHADER then 1 else 2),
      glCreateProgram_ret = 3,
      glGetShaderiv_out = (\<lambda>shader pname. Some 1),
      glGetShaderInfoLog_out = (\<lambda>shader n. Some [0]),
      glGetProgramiv_out = (\<lambda>program pname. if pname = GL_LINK_STATUS then Some 1 else None),
      glGetProgramInfoLog_out = (\<lambda>program n. Some [108, 0]),
      glGenVertexArrays_out = (\<lambda>v. if v = ''VAO'' then 1 else 2),
      glGenBuffers_out = (\<lambda>v. if v = ''VBO'' then 1 else if v = ''RECT_VBO'' then 2 else 3)\<rparr>"

text \<open>A pass in which the window is resized to 800 by 600, then a pass in which Escape
  is down.\<close>

definition resize_frame :: frame where
  "resize_frame =
     \<lparr>key_state = (\<lambda>k. GLFW_RELEASE),
      os_events = [WindowResized 800 600, FramebufferResized 800 600]\<rparr>"

definition escape_frame :: frame where
  "escape_frame = \<lparr>key_state = (\<lambda>k. GLFW_PRESS), os_events = []\<rparr>"

definition frames0 :: "frame list" where
  "frames0 = [resize_frame, escape_frame]"

section \<open>Notions the properties are stated with\<close>

text \<open>A pass asks for the window to close when Escape is down as \<^verbatim>\<open>process_input\<close>
  samples it, or when the system delivers a close request to \<^verbatim>\<open>glfwPollEvents\<close>.\<close>

definition requests_close :: "frame \<Rightarrow> bool" where
  "requests_close f =
     (key_state f GLFW_KEY_ESCAPE = GLFW_PRESS \<or> CloseRequested \<in> set (os_events f))"

text \<open>The calls that create or change a vertex array or a buffer: every call of that kind
  the program makes is one of these.\<close>

fun changes_geometry :: "event \<Rightarrow> bool" where
  "changes_geometry (GlGenVertexArrays n) = True"
| "changes_geometry (GlGenBuffers n) = True"
| "changes_geometry (GlBindBuffer target buffer) = True"
| "changes_geometry (GlBufferData target n d usage) = True"
| "changes_geometry (GlVertexAttribPointer i n t normalized stride off) = True"
| "changes_geometry (GlEnableVertexAttribArray i) = True"
| "changes_geometry ev = False"

fun is_upload :: "event \<Rightarrow> bool" where
  "is_upload (GlBufferData target n d usage) = True"
| "is_upload ev = False"

text \<open>The one call the callbacks make.\<close>

fun is_viewport :: "event \<Rightarrow> bool" where
  "is_viewport (GlViewport x y width height) = True"
| "is_viewport ev = False"

text \<open>The calls of one pass through the body of the loop, up to \<^verbatim>\<open>glfwPollEvents\<close>; what
  the callbacks call comes after them.\<close>

definition pass_events :: "frame \<Rightarrow> addr \<Rightarrow> nat \<Rightarrow> nat \<Rightarrow> event list" where
  "pass_events f glfw_window shader_program RECT_VAO =
     GlfwGetKey glfw_window GLFW_KEY_ESCAPE #
     (if key_state f GLFW_KEY_ESCAPE = GLFW_PRESS
      then [GlfwSetWindowShouldClose glfw_window True] else []) @
     [GlClearColor 0.2 0.3 0.3 1.0, GlClear GL_COLOR_BUFFER_BIT, GlUseProgram shader_program,
      GlBindVertexArray RECT_VAO, GlDrawElements GL_TRIANGLES 6 GL_UNSIGNED_INT 0,
      GlBindVertexArray 0, GlfwSwapBuffers glfw_window, GlfwPollEvents]"

text \<open>The calls made from line 189 to line 211, the callbacks included.\<close>

fun loop_event :: "event \<Rightarrow> bool" where
  "loop_event (GlfwWindowShouldClose window) = True"
| "loop_event (GlfwGetKey window k) = True"
| "loop_event (GlfwSetWindowShouldClose window v) = True"
| "loop_event (GlClearColor r g b a) = True"
| "loop_event (GlClear bits) = True"
| "loop_event (GlUseProgram program) = True"
| "loop_event (GlBindVertexArray array) = True"
| "loop_event (GlDrawElements mode n t off) = True"
| "loop_event (GlfwSwapBuffers window) = True"
| "loop_event GlfwPollEvents = True"
| "loop_event (GlViewport x y width height) = True"
| "loop_event ev = False"

text \<open>Both shader files are read without a fault (lines 57 and 58).\<close>

definition files_read :: "env \<Rightarrow> bool" where
  "files_read e =
     (case read_entire_file e ''../src/vertex_shader.glsl'' (start_heap e) of
        Inl f \<Rightarrow> False
      | Inr (vs_code, h) \<Rightarrow>
          (case read_entire_file e ''../src/fragment_shader.glsl'' h of
             Inl f \<Rightarrow> False
           | Inr (fs_code, h) \<Rightarrow> True))"

text \<open>The state at line 80, when the window \<open>glfw_window\<close> was created and the loader
  succeeded.\<close>

definition started :: "env \<Rightarrow> addr \<Rightarrow> state" where
  "started e glfw_window =
     (init_state e)
       \<lparr>trace :=
          [GlfwInit, GlfwWindowHint GLFW_CONTEXT_VERSION_MAJOR 3,
           GlfwWindowHint GLFW_CONTEXT_VERSION_MINOR 3,
           GlfwCreateWindow 1280 720 ''OpenGL experiment'',
           GlfwMakeContextCurrent glfw_window,
           GlfwSetFramebufferSizeCallback glfw_window Framebuffer_size_callback,
           GladLoadGLLoader],
        framebuffer_size_fun := Some Framebuffer_size_callback\<rparr>"

text \<open>No callback that writes the globals is set on the window.\<close>

definition quiet :: "state \<Rightarrow> bool" where
  "quiet s = (window_size_fun s = None \<and> framebuffer_size_fun s \<noteq> Some Window_size_callback)"

text \<open>The calls \<^verbatim>\<open>framebuffer_size_callback\<close> makes for the events of one
  \<^verbatim>\<open>glfwPollEvents\<close>: one \<^verbatim>\<open>glViewport\<close> for each change of the framebuffer's size.\<close>

fun viewports :: "os_event list \<Rightarrow> event list" where
  "viewports [] = []"
| "viewports (FramebufferResized width height # evs) = GlViewport 0 0 width height # viewports evs"
| "viewports (ev # evs) = viewports evs"

text \<open>The calls of the loop of lines 189 to 211, entered with the close flag unset and
  with the callbacks as \<^verbatim>\<open>main\<close> sets them: the check, then pass after pass until one asks
  to close, and the check that follows it.\<close>

fun loop_calls :: "frame list \<Rightarrow> addr \<Rightarrow> nat \<Rightarrow> nat \<Rightarrow> event list" where
  "loop_calls [] glfw_window shader_program RECT_VAO = [GlfwWindowShouldClose glfw_window]"
| "loop_calls (f # fs) glfw_window shader_program RECT_VAO =
     GlfwWindowShouldClose glfw_window #
     pass_events f glfw_window shader_program RECT_VAO @ viewports (os_events f) @
     (if requests_close f then [GlfwWindowShouldClose glfw_window]
      else loop_calls fs glfw_window shader_program RECT_VAO)"

text \<open>The number of passes made through the frames given.\<close>

fun passes :: "frame list \<Rightarrow> nat" where
  "passes [] = 0"
| "passes (f # fs) = (if requests_close f then 1 else Suc (passes fs))"

text \<open>The callbacks as line 72 leaves them: \<^verbatim>\<open>framebuffer_size_callback\<close> for the
  framebuffer, none for the window size.\<close>

definition registered :: "state \<Rightarrow> bool" where
  "registered s =
     (framebuffer_size_fun s = Some Framebuffer_size_callback \<and> window_size_fun s = None)"

text \<open>Every call that names, binds, fills, describes or draws a vertex array or a buffer:
  those of \<open>changes_geometry\<close>, and \<^verbatim>\<open>glBindVertexArray\<close> and \<^verbatim>\<open>glDrawElements\<close>.\<close>

fun geometry_call :: "event \<Rightarrow> bool" where
  "geometry_call (GlBindVertexArray array) = True"
| "geometry_call (GlDrawElements mode n t off) = True"
| "geometry_call ev = changes_geometry ev"

text \<open>Read off a trace: for each \<^verbatim>\<open>glBufferData\<close>, the argument of the latest
  \<^verbatim>\<open>glBindVertexArray\<close> before it, the buffer of the latest \<^verbatim>\<open>glBindBuffer\<close> on its
  target, and the data; for each \<^verbatim>\<open>glDrawElements\<close>, the argument of the latest
  \<^verbatim>\<open>glBindVertexArray\<close> before it and the number of indices. \<open>a\<close> and \<open>b\<close> are the
  bindings before the first call.\<close>

datatype use = Upload nat nat payload | Draw nat nat

fun geometry_uses :: "nat \<Rightarrow> (glenum \<Rightarrow> nat) \<Rightarrow> event list \<Rightarrow> use list" where
  "geometry_uses a b [] = []"
| "geometry_uses a b (GlBindVertexArray array # evs) = geometry_uses array b evs"
| "geometry_uses a b (GlBindBuffer target buffer # evs) = geometry_uses a (b(target := buffer)) evs"
| "geometry_uses a b (GlBufferData target n d usage # evs) =
     Upload a (b target) d # geometry_uses a b evs"
| "geometry_uses a b (GlDrawElements mode n t off # evs) = Draw a n # geometry_uses a b evs"
| "geometry_uses a b (ev # evs) = geometry_uses a b evs"

section \<open>The file loader\<close>

lemma blocks_store [simp]: "blocks (store p i v h) = blocks h"
  by (simp add: store_def)

lemma blocks_store_bytes [simp]: "blocks (store_bytes p i bs h) = blocks h"
  by (induction bs arbitrary: i h) simp_all

lemma mem_store_bytes_outside:
  "a < p + i \<or> p + i + length bs \<le> a \<Longrightarrow> mem (store_bytes p i bs h) a = mem h a"
  by (induction bs arbitrary: i h) (auto simp: store_def)

lemma mem_store_bytes_inside:
  "j < length bs \<Longrightarrow> mem (store_bytes p i bs h) (p + i + j) = bs ! j"
proof (induction bs arbitrary: i j h)
  case Nil
  then show ?case by simp
next
  case (Cons b bs)
  show ?case
  proof (cases j)
    case 0
    then show ?thesis
      by (simp add: mem_store_bytes_outside store_def)
  next
    case (Suc k)
    then have "k < length bs" using Cons.prems by simp
    from Cons.IH [OF this, of "Suc i" "store p i b h"] Suc show ?thesis by simp
  qed
qed

lemma unat_size:
  "n < 2 ^ 63 \<Longrightarrow> unat (of_nat n + 1 :: size_t) = n + 1"
  by (simp add: unat_word_ariths unat_of_nat)

lemma unat_len:
  "n < 2 ^ 63 \<Longrightarrow> unat (of_nat n :: size_t) = n"
  by (simp add: unat_of_nat)

text \<open>The heap a successful call leaves: the new block, the content copied to its
  start, and a zero stored at the index that equals the size of the block.\<close>

lemma read_entire_file_ok:
  assumes "files e filename = Some bs" and "length bs < 2 ^ 63"
    and "allocator e (blocks h) (length bs + 1) = Some p"
  shows "read_entire_file e filename h =
     Inr (\<lparr>data = p, size_fc = of_nat (length bs) + 1\<rparr>,
          store p (length bs + 1) 0
            (store_bytes p 0 bs (h\<lparr>blocks := (p, length bs + 1) # blocks h\<rparr>)))"
  using assms
  by (simp add: read_entire_file_def fopen_def ftell_def fseek_def malloc_def fread_def
      Let_def unat_size unat_len)

text \<open>
  C1. For a file of \<open>fileSize\<close> bytes (a size a \<^verbatim>\<open>long\<close> can hold) and an allocation that
  succeeds, \<^verbatim>\<open>read_entire_file\<close> returns a record whose \<open>size\<close> is \<open>fileSize + 1\<close> and
  whose \<open>data\<close> is the base of a block of exactly \<open>fileSize + 1\<close> bytes. The first
  \<open>fileSize\<close> bytes of the block are the content of the file. The last byte of the block,
  at index \<open>fileSize\<close>, is never written: it holds what the memory held before the call.
\<close>

theorem read_entire_file_buffer:
  assumes "files e filename = Some bs" and "length bs < 2 ^ 63"
    and "allocator e (blocks h) (length bs + 1) = Some p"
  shows "\<exists>r h'. read_entire_file e filename h = Inr (r, h')
           \<and> unat (size_fc r) = length bs + 1
           \<and> data r = p
           \<and> map_of (blocks h') (data r) = Some (length bs + 1)
           \<and> (\<forall>i<length bs. mem h' (data r + i) = bs ! i)
           \<and> mem h' (data r + length bs) = mem h (data r + length bs)"
proof -
  let ?h1 = "h\<lparr>blocks := (p, length bs + 1) # blocks h\<rparr>"
  let ?h2 = "store_bytes p 0 bs ?h1"
  let ?h3 = "store p (length bs + 1) 0 ?h2"
  have content: "mem ?h3 (p + i) = bs ! i" if "i < length bs" for i
    using that mem_store_bytes_inside [of i bs p 0 ?h1] by (simp add: store_def)
  have last: "mem ?h3 (p + length bs) = mem h (p + length bs)"
    using mem_store_bytes_outside [of "p + length bs" p 0 bs ?h1] by (simp add: store_def)
  show ?thesis
    using read_entire_file_ok [OF assms] content last
    by (simp add: unat_size [OF assms(2)])
qed

theorem read_entire_file_buffer_witness:
  "files env0 ''../src/vertex_shader.glsl'' = Some [118, 115]
   \<and> length [118, 115 :: byte] < 2 ^ 63
   \<and> allocator env0 (blocks (start_heap env0)) (length [118, 115 :: byte] + 1) = Some 4096
   \<and> (\<exists>r h'. read_entire_file env0 ''../src/vertex_shader.glsl'' (start_heap env0) = Inr (r, h')
          \<and> unat (size_fc r) = 3 \<and> data r = 4096 \<and> map_of (blocks h') 4096 = Some 3
          \<and> mem h' 4096 = 118 \<and> mem h' 4097 = 115 \<and> mem h' 4098 = 205)"
proof -
  have f: "files env0 ''../src/vertex_shader.glsl'' = Some [118, 115]"
    by (simp add: env0_def)
  have l: "length [118, 115 :: byte] < 2 ^ 63"
    by simp
  have a: "allocator env0 (blocks (start_heap env0)) (length [118, 115 :: byte] + 1) = Some 4096"
    by (simp add: env0_def)
  obtain r h' where r:
    "read_entire_file env0 ''../src/vertex_shader.glsl'' (start_heap env0) = Inr (r, h')"
    "unat (size_fc r) = length [118, 115 :: byte] + 1" "data r = 4096"
    "map_of (blocks h') (data r) = Some (length [118, 115 :: byte] + 1)"
    "\<forall>i<length [118, 115 :: byte]. mem h' (data r + i) = [118, 115] ! i"
    "mem h' (data r + length [118, 115 :: byte])
       = mem (start_heap env0) (data r + length [118, 115 :: byte])"
    using read_entire_file_buffer [OF f l a] by blast
  have "(0::nat) < length [118, 115 :: byte]" "(1::nat) < length [118, 115 :: byte]"
    by simp_all
  with r(5) have "mem h' (data r + 0) = [118, 115] ! 0" "mem h' (data r + 1) = [118, 115] ! 1"
    by blast+
  then have "mem h' 4096 = 118" "mem h' 4097 = 115"
    using r(3) by simp_all
  moreover have "mem h' 4098 = 205"
    using r(6) r(3) by (simp add: env0_def)
  ultimately show ?thesis
    using f l a r(1-4) by auto
qed

text \<open>
  C2. Whenever \<^verbatim>\<open>read_entire_file\<close> gets as far as the store of the terminator (in the
  model: whenever it returns), the block behind \<open>data\<close> has exactly \<open>size\<close> bytes, the
  zero byte is stored at index \<open>size\<close>, which is not an index of the block, and that
  store is the last one logged as out of bounds. This holds for every file.
\<close>

theorem terminator_store_out_of_bounds:
  assumes "read_entire_file e filename h = Inr (r, h')"
  shows "map_of (blocks h') (data r) = Some (unat (size_fc r))
       \<and> \<not> in_bounds h' (data r) (unat (size_fc r))
       \<and> oob_stores h' \<noteq> []
       \<and> last (oob_stores h') = (data r, unat (size_fc r))
       \<and> mem h' (data r + unat (size_fc r)) = 0"
  using assms
  by (auto simp: read_entire_file_def fopen_def malloc_def fread_def Let_def store_def
      in_bounds_def split: option.splits)

theorem terminator_store_out_of_bounds_witness:
  "\<exists>r h'. read_entire_file env0 ''../src/fragment_shader.glsl'' (start_heap env0) = Inr (r, h')
     \<and> data r = 4096 \<and> unat (size_fc r) = 4
     \<and> map_of (blocks h') 4096 = Some 4
     \<and> \<not> in_bounds h' 4096 4
     \<and> last (oob_stores h') = (4096, 4)
     \<and> mem h' 4100 = 0"
proof -
  have "files env0 ''../src/fragment_shader.glsl'' = Some [102, 114, 97]"
    "length [102, 114, 97 :: byte] < 2 ^ 63"
    "allocator env0 (blocks (start_heap env0)) (length [102, 114, 97 :: byte] + 1) = Some 4096"
    by (simp_all add: env0_def)
  from read_entire_file_ok [OF this]
  obtain r h' where r:
    "read_entire_file env0 ''../src/fragment_shader.glsl'' (start_heap env0) = Inr (r, h')"
    "data r = 4096" "unat (size_fc r) = 4"
    by simp
  from terminator_store_out_of_bounds [OF r(1)] r show ?thesis
    by auto
qed

text \<open>
  C3. For every path that names no file, \<^verbatim>\<open>fopen\<close> returns the null pointer, no check
  stands between it and \<^verbatim>\<open>ftell\<close>, and the call ends in the fault of the null stream
  instead of returning.
\<close>

theorem missing_file_faults:
  assumes "files e filename = None"
  shows "read_entire_file e filename h = Inl NullStream"
  using assms by (simp add: read_entire_file_def fopen_def)

theorem missing_file_faults_witness:
  "files env0 ''../src/missing.glsl'' = None
   \<and> read_entire_file env0 ''../src/missing.glsl'' (start_heap env0) = Inl NullStream"
proof -
  have "files env0 ''../src/missing.glsl'' = None"
    by (simp add: env0_def)
  with missing_file_faults [OF this] show ?thesis by simp
qed

section \<open>The render loop, event by event\<close>

lemmas api_defs =
  call_def glfwInit_def glfwCreateWindow_def glfwSetFramebufferSizeCallback_def
  gladLoadGLLoader_def glCreateShader_def glCreateProgram_def glGetShaderiv_def
  glGetShaderInfoLog_def glGetProgramiv_def glGetProgramInfoLog_def glGenVertexArrays_def
  glGenBuffers_def glfwWindowShouldClose_def glfwSetWindowShouldClose_def glfwGetKey_def

section \<open>Event polling\<close>

lemma invoke_events:
  "\<exists>evs. trace (invoke cb width height s) = trace s @ evs \<and> list_all is_viewport evs"
  by (cases cb) (simp_all add: window_size_callback_def framebuffer_size_callback_def call_def)

lemma deliver_events:
  "\<exists>evs. trace (deliver ev s) = trace s @ evs \<and> list_all is_viewport evs"
  by (cases ev) (auto simp: invoke_events split: option.splits)

lemma fold_deliver_events:
  "\<exists>evs. trace (fold deliver xs s) = trace s @ evs \<and> list_all is_viewport evs"
proof (induction xs arbitrary: s)
  case Nil
  show ?case by simp
next
  case (Cons x xs)
  obtain a where a: "trace (deliver x s) = trace s @ a" "list_all is_viewport a"
    using deliver_events by blast
  obtain b where b: "trace (fold deliver xs (deliver x s)) = trace (deliver x s) @ b"
    "list_all is_viewport b"
    using Cons.IH by blast
  from a b show ?case by simp
qed

lemma viewport_loop_event: "is_viewport ev \<Longrightarrow> loop_event ev"
  by (cases ev) simp_all

lemma viewports_loop_events: "list_all is_viewport evs \<Longrightarrow> list_all loop_event evs"
  by (induction evs) (simp_all add: viewport_loop_event)

lemma should_close_invoke [simp]:
  "should_close (invoke cb width height s) = should_close s"
  by (cases cb) (simp_all add: window_size_callback_def framebuffer_size_callback_def call_def)

lemma should_close_deliver:
  "should_close (deliver ev s) = (should_close s \<or> ev = CloseRequested)"
  by (cases ev) (simp_all split: option.splits)

lemma should_close_fold_deliver:
  "should_close (fold deliver xs s) = (should_close s \<or> CloseRequested \<in> set xs)"
  by (induction xs arbitrary: s) (auto simp: should_close_deliver)

lemma trace_before_poll:
  "trace (call GlfwPollEvents (call (GlfwSwapBuffers w) (render p v (process_input f w s))))
     = trace s @ pass_events f w p v"
  by (simp add: process_input_def render_def api_defs Let_def pass_events_def)

lemma pass_events_loop: "list_all loop_event (pass_events f w p v)"
  by (simp add: pass_events_def)

lemma loop_body_trace:
  "\<exists>evs. trace (loop_body f w p v s) = trace s @ pass_events f w p v @ evs
     \<and> list_all is_viewport evs"
proof -
  let ?s = "call GlfwPollEvents (call (GlfwSwapBuffers w) (render p v (process_input f w s)))"
  obtain b where b: "trace (fold deliver (os_events f) ?s) = trace ?s @ b"
    "list_all is_viewport b"
    using fold_deliver_events by blast
  have "trace (loop_body f w p v s) = trace s @ pass_events f w p v @ b"
    using b trace_before_poll [of w p v f s]
    by (simp add: loop_body_def glfwPollEvents_def Let_def)
  with b show ?thesis by blast
qed

lemma loop_body_events:
  "\<exists>evs. trace (loop_body f w p v s) = trace s @ evs \<and> list_all loop_event evs"
proof -
  obtain b where b: "trace (loop_body f w p v s) = trace s @ pass_events f w p v @ b"
    "list_all is_viewport b"
    using loop_body_trace by blast
  then have "list_all loop_event (pass_events f w p v @ b)"
    using pass_events_loop viewports_loop_events by simp
  with b show ?thesis by blast
qed

lemma render_loop_events:
  "\<exists>evs. trace (snd (render_loop fs w p v s)) = trace s @ evs \<and> list_all loop_event evs"
proof (induction fs arbitrary: s)
  case Nil
  show ?case by (simp add: api_defs)
next
  case (Cons f fs)
  let ?s = "call (GlfwWindowShouldClose w) s"
  show ?case
  proof (cases "should_close s")
    case True
    then show ?thesis by (simp add: api_defs)
  next
    case False
    obtain a where a: "trace (loop_body f w p v ?s) = trace ?s @ a" "list_all loop_event a"
      using loop_body_events by blast
    obtain b where b: "trace (snd (render_loop fs w p v (loop_body f w p v ?s)))
        = trace (loop_body f w p v ?s) @ b" "list_all loop_event b"
      using Cons.IH by blast
    have "trace (snd (render_loop (f # fs) w p v s)) = trace s @ (GlfwWindowShouldClose w # a @ b)"
      using False a b by (simp add: glfwWindowShouldClose_def call_def)
    moreover have "list_all loop_event (GlfwWindowShouldClose w # a @ b)"
      using a b by simp
    ultimately show ?thesis by blast
  qed
qed

lemma should_close_loop_body:
  "should_close (loop_body f w p v s) = (should_close s \<or> requests_close f)"
  by (auto simp: loop_body_def glfwPollEvents_def should_close_fold_deliver process_input_def
      render_def api_defs requests_close_def Let_def)

section \<open>What the loop leaves alone\<close>

lemma invoke_frame:
  "\<exists>t ww wh. invoke cb width height s = s\<lparr>trace := t, window_width := ww, window_height := wh\<rparr>"
proof (cases cb)
  case Window_size_callback
  have "invoke cb width height s
      = s\<lparr>trace := trace s @ [GlViewport 0 0 width height], window_width := width,
          window_height := height\<rparr>"
    using Window_size_callback by (simp add: window_size_callback_def call_def)
  then show ?thesis by blast
next
  case Framebuffer_size_callback
  have "invoke cb width height s
      = s\<lparr>trace := trace s @ [GlViewport 0 0 width height], window_width := window_width s,
          window_height := window_height s\<rparr>"
    using Framebuffer_size_callback by (simp add: framebuffer_size_callback_def call_def)
  then show ?thesis by blast
qed

lemma deliver_frame:
  "\<exists>t c ww wh. deliver ev s =
     s\<lparr>trace := t, should_close := c, window_width := ww, window_height := wh\<rparr>"
proof -
  have "s = s\<lparr>trace := trace s, should_close := should_close s,
      window_width := window_width s, window_height := window_height s\<rparr>"
    by simp
  then have self: "\<exists>t c ww wh. s =
      s\<lparr>trace := t, should_close := c, window_width := ww, window_height := wh\<rparr>"
    by blast
  have inv: "\<exists>t c ww wh. invoke cb width height s =
     s\<lparr>trace := t, should_close := c, window_width := ww, window_height := wh\<rparr>"
    for cb width height
  proof -
    obtain t ww wh where
      "invoke cb width height s = s\<lparr>trace := t, window_width := ww, window_height := wh\<rparr>"
      using invoke_frame by blast
    then have "invoke cb width height s =
       s\<lparr>trace := t, should_close := should_close s, window_width := ww, window_height := wh\<rparr>"
      by simp
    then show ?thesis by blast
  qed
  show ?thesis
  proof (cases ev)
    case CloseRequested
    then have "deliver ev s = s\<lparr>trace := trace s, should_close := True,
        window_width := window_width s, window_height := window_height s\<rparr>"
      by simp
    then show ?thesis by blast
  next
    case (FramebufferResized width height)
    show ?thesis
    proof (cases "framebuffer_size_fun s")
      case None
      with FramebufferResized self show ?thesis by simp
    next
      case (Some cb)
      with FramebufferResized inv [of cb width height] show ?thesis by simp
    qed
  next
    case (WindowResized width height)
    show ?thesis
    proof (cases "window_size_fun s")
      case None
      with WindowResized self show ?thesis by simp
    next
      case (Some cb)
      with WindowResized inv [of cb width height] show ?thesis by simp
    qed
  qed
qed

lemma fold_deliver_frame:
  "\<exists>t c ww wh. fold deliver xs s =
     s\<lparr>trace := t, should_close := c, window_width := ww, window_height := wh\<rparr>"
proof (induction xs arbitrary: s)
  case Nil
  have "s = s\<lparr>trace := trace s, should_close := should_close s,
      window_width := window_width s, window_height := window_height s\<rparr>"
    by simp
  then show ?case by (metis fold_simps(1))
next
  case (Cons x xs)
  obtain t c ww wh where a: "deliver x s =
      s\<lparr>trace := t, should_close := c, window_width := ww, window_height := wh\<rparr>"
    using deliver_frame by blast
  obtain t' c' ww' wh' where b: "fold deliver xs (deliver x s) =
      (deliver x s)\<lparr>trace := t', should_close := c', window_width := ww', window_height := wh'\<rparr>"
    using Cons.IH by blast
  have "fold deliver (x # xs) s =
      s\<lparr>trace := t', should_close := c', window_width := ww', window_height := wh'\<rparr>"
    using a b by simp
  then show ?case by blast
qed

lemma loop_body_frame:
  "\<exists>t c ww wh. loop_body f w p v s =
     s\<lparr>trace := t, should_close := c, window_width := ww, window_height := wh\<rparr>"
proof -
  let ?s = "call GlfwPollEvents (call (GlfwSwapBuffers w) (render p v (process_input f w s)))"
  have a: "?s = s\<lparr>trace := trace ?s, should_close := should_close ?s,
      window_width := window_width s, window_height := window_height s\<rparr>"
    by (simp add: process_input_def render_def api_defs Let_def)
  obtain t' c' ww' wh' where b: "fold deliver (os_events f) ?s =
      ?s\<lparr>trace := t', should_close := c', window_width := ww', window_height := wh'\<rparr>"
    using fold_deliver_frame by blast
  have "loop_body f w p v s = fold deliver (os_events f) ?s"
    by (simp add: loop_body_def glfwPollEvents_def Let_def)
  also have "\<dots> = s\<lparr>trace := t', should_close := c', window_width := ww', window_height := wh'\<rparr>"
    by (subst b, subst a) simp
  finally show ?thesis by blast
qed

lemma render_loop_frame:
  "\<exists>t c ww wh. snd (render_loop fs w p v s) =
     s\<lparr>trace := t, should_close := c, window_width := ww, window_height := wh\<rparr>"
proof (induction fs arbitrary: s)
  case Nil
  have "snd (render_loop [] w p v s) = s\<lparr>trace := trace s @ [GlfwWindowShouldClose w],
      should_close := should_close s, window_width := window_width s,
      window_height := window_height s\<rparr>"
    by (simp add: api_defs)
  then show ?case by blast
next
  case (Cons f fs)
  let ?s = "call (GlfwWindowShouldClose w) s"
  have s: "?s = s\<lparr>trace := trace s @ [GlfwWindowShouldClose w],
      should_close := should_close s, window_width := window_width s,
      window_height := window_height s\<rparr>"
    by (simp add: api_defs)
  show ?case
  proof (cases "should_close s")
    case True
    then have "snd (render_loop (f # fs) w p v s) = ?s"
      by (simp add: api_defs)
    with s show ?thesis by metis
  next
    case False
    obtain t c ww wh where a: "loop_body f w p v ?s =
        ?s\<lparr>trace := t, should_close := c, window_width := ww, window_height := wh\<rparr>"
      using loop_body_frame by blast
    obtain t' c' ww' wh' where b: "snd (render_loop fs w p v (loop_body f w p v ?s)) =
        (loop_body f w p v ?s)\<lparr>trace := t', should_close := c', window_width := ww',
          window_height := wh'\<rparr>"
      using Cons.IH by blast
    have "snd (render_loop (f # fs) w p v s) = snd (render_loop fs w p v (loop_body f w p v ?s))"
      using False by (simp add: glfwWindowShouldClose_def)
    also have "\<dots> = s\<lparr>trace := t', should_close := c', window_width := ww',
        window_height := wh'\<rparr>"
      by (subst b, subst a) (simp add: call_def)
    finally show ?thesis by blast
  qed
qed

section \<open>The globals during the loop\<close>


lemma deliver_globals:
  assumes "quiet s"
  shows "window_width (deliver ev s) = window_width s \<and> window_height (deliver ev s) = window_height s
       \<and> quiet (deliver ev s)"
proof (cases ev)
  case CloseRequested
  then show ?thesis using assms by (simp add: quiet_def)
next
  case (FramebufferResized width height)
  show ?thesis
  proof (cases "framebuffer_size_fun s")
    case None
    then show ?thesis using assms FramebufferResized by simp
  next
    case (Some cb)
    then have "cb = Framebuffer_size_callback"
      using assms by (cases cb) (simp_all add: quiet_def)
    then show ?thesis
      using assms Some FramebufferResized
      by (simp add: quiet_def framebuffer_size_callback_def call_def)
  qed
next
  case (WindowResized width height)
  then show ?thesis using assms by (simp add: quiet_def)
qed

lemma fold_deliver_globals:
  "quiet s \<Longrightarrow> window_width (fold deliver xs s) = window_width s
     \<and> window_height (fold deliver xs s) = window_height s \<and> quiet (fold deliver xs s)"
proof (induction xs arbitrary: s)
  case Nil
  then show ?case by simp
next
  case (Cons x xs)
  from deliver_globals [OF Cons.prems, of x] Cons.IH [of "deliver x s"]
  show ?case by simp
qed

lemma loop_body_globals:
  assumes "quiet s"
  shows "window_width (loop_body f w p v s) = window_width s
     \<and> window_height (loop_body f w p v s) = window_height s \<and> quiet (loop_body f w p v s)"
proof -
  let ?s = "call GlfwPollEvents (call (GlfwSwapBuffers w) (render p v (process_input f w s)))"
  have a: "quiet ?s" "window_width ?s = window_width s" "window_height ?s = window_height s"
    using assms by (simp_all add: quiet_def process_input_def render_def api_defs Let_def)
  have "loop_body f w p v s = fold deliver (os_events f) ?s"
    by (simp add: loop_body_def glfwPollEvents_def Let_def)
  then show ?thesis
    using fold_deliver_globals [OF a(1), of "os_events f"] a by simp
qed

lemma render_loop_globals:
  "quiet s \<Longrightarrow> window_width (snd (render_loop fs w p v s)) = window_width s
     \<and> window_height (snd (render_loop fs w p v s)) = window_height s
     \<and> quiet (snd (render_loop fs w p v s))"
proof (induction fs arbitrary: s)
  case Nil
  then show ?case by (simp add: api_defs quiet_def)
next
  case (Cons f fs)
  let ?s = "call (GlfwWindowShouldClose w) s"
  have q: "quiet ?s" "window_width ?s = window_width s" "window_height ?s = window_height s"
    using Cons.prems by (simp_all add: quiet_def call_def)
  show ?case
  proof (cases "should_close s")
    case True
    then show ?thesis using q by (simp add: glfwWindowShouldClose_def)
  next
    case False
    from loop_body_globals [OF q(1), of f w p v]
    have b: "quiet (loop_body f w p v ?s)" "window_width (loop_body f w p v ?s) = window_width s"
      "window_height (loop_body f w p v ?s) = window_height s"
      using q by simp_all
    from Cons.IH [OF b(1)] b False show ?thesis
      by (simp add: glfwWindowShouldClose_def)
  qed
qed

section \<open>The straight-line part of main\<close>

lemma compile_vertex_shader_state:
  "compile_vertex_shader e vs_code s =
     (let sh = glCreateShader_ret e GL_VERTEX_SHADER;
          ok = out_param (glGetShaderiv_out e sh GL_COMPILE_STATUS) (vs_success s);
          l = out_param (glGetShaderInfoLog_out e sh 512) (vs_infolog s)
      in (sh,
          s\<lparr>trace := trace s @
               [GlCreateShader GL_VERTEX_SHADER, GlShaderSource sh 1 (data vs_code),
                GlCompileShader sh, GlGetShaderiv sh GL_COMPILE_STATUS] @
               (if ok = 0 then
                  [GlGetShaderInfoLog sh 512,
                   Printf ''ERROR::SHADER::VERTEX::COMPILATION_FAILED\<newline>%s\<newline>'' [l]]
                else []),
            vs_success := ok,
            vs_infolog := (if ok = 0 then l else vs_infolog s)\<rparr>))"
  by (simp add: compile_vertex_shader_def api_defs Let_def split_def)

lemma compile_fragment_shader_state:
  "compile_fragment_shader e fs_code s =
     (let sh = glCreateShader_ret e GL_FRAGMENT_SHADER;
          ok = out_param (glGetShaderiv_out e sh GL_COMPILE_STATUS) (fs_success s);
          l = out_param (glGetShaderInfoLog_out e sh 512) (fs_infolog s)
      in (sh,
          s\<lparr>trace := trace s @
               [GlCreateShader GL_FRAGMENT_SHADER, GlShaderSource sh 1 (data fs_code),
                GlCompileShader sh, GlGetShaderiv sh GL_COMPILE_STATUS] @
               (if ok = 0 then
                  [GlGetShaderInfoLog sh 512,
                   Printf ''ERROR::SHADER::FRAGMENT::COMPILATION_FAILED\<newline>%s\<newline>'' [l]]
                else []),
            fs_success := ok,
            fs_infolog := (if ok = 0 then l else fs_infolog s)\<rparr>))"
  by (simp add: compile_fragment_shader_def api_defs Let_def split_def)

lemma link_program_state:
  "link_program e vertex_shader fragment_shader s =
     (let p = glCreateProgram_ret e;
          ok = out_param (glGetProgramiv_out e p GL_COMPILE_STATUS) (sp_success s);
          l = out_param (glGetProgramInfoLog_out e p 512) (sp_infolog s)
      in (p,
          s\<lparr>trace := trace s @
               [GlCreateProgram, GlAttachShader p vertex_shader,
                GlAttachShader p fragment_shader, GlLinkProgram p,
                GlGetProgramiv p GL_COMPILE_STATUS] @
               (if ok = 0 then
                  [GlGetProgramInfoLog p 512,
                   Printf ''ERROR::SHADER::PROGRAM::COMPILATION_FAILED\<newline>%s\<newline>''
                     [fs_infolog s]]
                else []),
            sp_success := ok,
            sp_infolog := (if ok = 0 then l else sp_infolog s)\<rparr>))"
  by (simp add: link_program_def api_defs Let_def split_def)

lemma upload_triangle_state:
  "upload_triangle e s =
     s\<lparr>trace := trace s @
          [GlGenVertexArrays 1, GlGenBuffers 1,
           GlBindVertexArray (glGenVertexArrays_out e ''VAO''),
           GlBindBuffer GL_ARRAY_BUFFER (glGenBuffers_out e ''VBO''),
           GlBufferData GL_ARRAY_BUFFER 36 (Floats vertices) GL_STATIC_DRAW,
           GlVertexAttribPointer 0 3 GL_FLOAT GL_FALSE 12 0,
           GlEnableVertexAttribArray 0]\<rparr>"
  by (simp add: upload_triangle_def api_defs Let_def split_def sizeof_float_def vertices_def)

lemma upload_rectangle_state:
  "upload_rectangle e s =
     (glGenVertexArrays_out e ''RECT_VAO'',
      s\<lparr>trace := trace s @
          [GlGenVertexArrays 1, GlGenBuffers 1,
           GlBindVertexArray (glGenVertexArrays_out e ''RECT_VAO''),
           GlBindBuffer GL_ARRAY_BUFFER (glGenBuffers_out e ''RECT_VBO''),
           GlBufferData GL_ARRAY_BUFFER 48 (Floats rect_vertices) GL_STATIC_DRAW,
           GlGenBuffers 1,
           GlBindBuffer GL_ELEMENT_ARRAY_BUFFER (glGenBuffers_out e ''EBO''),
           GlBufferData GL_ELEMENT_ARRAY_BUFFER 24 (UInts indices) GL_STATIC_DRAW,
           GlVertexAttribPointer 0 3 GL_FLOAT GL_FALSE 12 0,
           GlEnableVertexAttribArray 0]\<rparr>)"
  by (simp add: upload_rectangle_def api_defs Let_def split_def sizeof_float_def
      sizeof_unsigned_int_def rect_vertices_def indices_def)

lemma build_scene_state:
  "build_scene e vs_code fs_code s =
     (let vsh = glCreateShader_ret e GL_VERTEX_SHADER;
          fsh = glCreateShader_ret e GL_FRAGMENT_SHADER;
          p = glCreateProgram_ret e;
          vok = out_param (glGetShaderiv_out e vsh GL_COMPILE_STATUS) (vs_success s);
          vlog = out_param (glGetShaderInfoLog_out e vsh 512) (vs_infolog s);
          fok = out_param (glGetShaderiv_out e fsh GL_COMPILE_STATUS) (fs_success s);
          flog = out_param (glGetShaderInfoLog_out e fsh 512) (fs_infolog s);
          fbuf = (if fok = 0 then flog else fs_infolog s);
          pok = out_param (glGetProgramiv_out e p GL_COMPILE_STATUS) (sp_success s);
          plog = out_param (glGetProgramInfoLog_out e p 512) (sp_infolog s)
      in (p, glGenVertexArrays_out e ''RECT_VAO'',
          s\<lparr>trace := trace s @
               [GlCreateShader GL_VERTEX_SHADER, GlShaderSource vsh 1 (data vs_code),
                GlCompileShader vsh, GlGetShaderiv vsh GL_COMPILE_STATUS] @
               (if vok = 0 then
                  [GlGetShaderInfoLog vsh 512,
                   Printf ''ERROR::SHADER::VERTEX::COMPILATION_FAILED\<newline>%s\<newline>'' [vlog]]
                else []) @
               [GlCreateShader GL_FRAGMENT_SHADER, GlShaderSource fsh 1 (data fs_code),
                GlCompileShader fsh, GlGetShaderiv fsh GL_COMPILE_STATUS] @
               (if fok = 0 then
                  [GlGetShaderInfoLog fsh 512,
                   Printf ''ERROR::SHADER::FRAGMENT::COMPILATION_FAILED\<newline>%s\<newline>'' [flog]]
                else []) @
               [GlCreateProgram, GlAttachShader p vsh, GlAttachShader p fsh, GlLinkProgram p,
                GlGetProgramiv p GL_COMPILE_STATUS] @
               (if pok = 0 then
                  [GlGetProgramInfoLog p 512,
                   Printf ''ERROR::SHADER::PROGRAM::COMPILATION_FAILED\<newline>%s\<newline>'' [fbuf]]
                else []) @
               [GlUseProgram p, GlDeleteShader vsh, GlDeleteShader fsh,
                GlGenVertexArrays 1, GlGenBuffers 1,
                GlBindVertexArray (glGenVertexArrays_out e ''VAO''),
                GlBindBuffer GL_ARRAY_BUFFER (glGenBuffers_out e ''VBO''),
                GlBufferData GL_ARRAY_BUFFER 36 (Floats vertices) GL_STATIC_DRAW,
                GlVertexAttribPointer 0 3 GL_FLOAT GL_FALSE 12 0,
                GlEnableVertexAttribArray 0,
                GlGenVertexArrays 1, GlGenBuffers 1,
                GlBindVertexArray (glGenVertexArrays_out e ''RECT_VAO''),
                GlBindBuffer GL_ARRAY_BUFFER (glGenBuffers_out e ''RECT_VBO''),
                GlBufferData GL_ARRAY_BUFFER 48 (Floats rect_vertices) GL_STATIC_DRAW,
                GlGenBuffers 1,
                GlBindBuffer GL_ELEMENT_ARRAY_BUFFER (glGenBuffers_out e ''EBO''),
                GlBufferData GL_ELEMENT_ARRAY_BUFFER 24 (UInts indices) GL_STATIC_DRAW,
                GlVertexAttribPointer 0 3 GL_FLOAT GL_FALSE 12 0,
                GlEnableVertexAttribArray 0],
            vs_success := vok, vs_infolog := (if vok = 0 then vlog else vs_infolog s),
            fs_success := fok, fs_infolog := fbuf,
            sp_success := pok, sp_infolog := (if pok = 0 then plog else sp_infolog s)\<rparr>))"
  by (simp add: build_scene_def compile_vertex_shader_state compile_fragment_shader_state
      link_program_state upload_triangle_state upload_rectangle_state call_def Let_def)

section \<open>The ways through main\<close>

lemma files_readE:
  assumes "files_read e"
  obtains vs_code h1 fs_code h2 where
    "read_entire_file e ''../src/vertex_shader.glsl'' (start_heap e) = Inr (vs_code, h1)"
    "read_entire_file e ''../src/fragment_shader.glsl'' h1 = Inr (fs_code, h2)"
proof (cases "read_entire_file e ''../src/vertex_shader.glsl'' (start_heap e)")
  case (Inl f)
  with assms show ?thesis by (simp add: files_read_def)
next
  case (Inr r)
  obtain vs_code h1 where r: "r = (vs_code, h1)" by (cases r)
  show ?thesis
  proof (cases "read_entire_file e ''../src/fragment_shader.glsl'' h1")
    case (Inl f)
    with assms Inr r show ?thesis by (simp add: files_read_def)
  next
    case inr: (Inr r')
    obtain fs_code h2 where "r' = (fs_code, h2)" by (cases r')
    with Inr r inr that show ?thesis by simp
  qed
qed

lemma main_crashed:
  assumes "\<not> files_read e"
  shows "\<exists>f. main e frames = (Crashed f, init_state e)"
  using assms by (auto simp: files_read_def main_def Let_def split: sum.splits)

lemma main_no_window:
  assumes "files_read e" and "glfwCreateWindow_ret e = None"
  shows "main e frames =
     (Returned (- 1),
      (init_state e)
        \<lparr>trace :=
           [GlfwInit, GlfwWindowHint GLFW_CONTEXT_VERSION_MAJOR 3,
            GlfwWindowHint GLFW_CONTEXT_VERSION_MINOR 3,
            GlfwCreateWindow 1280 720 ''OpenGL experiment'',
            Printf ''Failed to create GLFW window\<newline>'' [], GlfwTerminate]\<rparr>)"
proof -
  from assms(1) obtain vs_code h1 fs_code h2 where
    "read_entire_file e ''../src/vertex_shader.glsl'' (start_heap e) = Inr (vs_code, h1)"
    "read_entire_file e ''../src/fragment_shader.glsl'' h1 = Inr (fs_code, h2)"
    by (rule files_readE)
  then show ?thesis
    using assms(2) by (simp add: main_def Let_def api_defs init_state_def)
qed

lemma main_no_loader:
  assumes "files_read e" and "glfwCreateWindow_ret e = Some w" and "gladLoadGLLoader_ret e = 0"
  shows "main e frames =
     (Returned (- 1),
      (started e w)\<lparr>trace := trace (started e w) @ [Printf ''Failed to initialize GLAD\<newline>'' []]\<rparr>)"
proof -
  from assms(1) obtain vs_code h1 fs_code h2 where
    "read_entire_file e ''../src/vertex_shader.glsl'' (start_heap e) = Inr (vs_code, h1)"
    "read_entire_file e ''../src/fragment_shader.glsl'' h1 = Inr (fs_code, h2)"
    by (rule files_readE)
  then show ?thesis
    using assms(2,3) by (simp add: main_def Let_def api_defs init_state_def started_def)
qed

lemma main_loop:
  assumes "read_entire_file e ''../src/vertex_shader.glsl'' (start_heap e) = Inr (vs_code, h1)"
    and "read_entire_file e ''../src/fragment_shader.glsl'' h1 = Inr (fs_code, h2)"
    and "glfwCreateWindow_ret e = Some w" and "gladLoadGLLoader_ret e \<noteq> 0"
  shows "main e frames =
     (let r = render_loop frames w (glCreateProgram_ret e) (glGenVertexArrays_out e ''RECT_VAO'')
                (snd (snd (build_scene e vs_code fs_code (started e w))))
      in if fst r then (Returned 0, call GlfwTerminate (snd r)) else (StillRunning, snd r))"
proof -
  have s: "build_scene e vs_code fs_code (started e w) =
      (glCreateProgram_ret e, glGenVertexArrays_out e ''RECT_VAO'',
       snd (snd (build_scene e vs_code fs_code (started e w))))"
    by (simp add: build_scene_state Let_def)
  have "main e frames =
     (let (shader_program, RECT_VAO, s) = build_scene e vs_code fs_code (started e w);
          (exited, s) = render_loop frames w shader_program RECT_VAO s
      in if exited then (Returned 0, call GlfwTerminate s) else (StillRunning, s))"
    using assms by (simp add: main_def Let_def api_defs init_state_def started_def)
  also have "\<dots> =
     (let r = render_loop frames w (glCreateProgram_ret e) (glGenVertexArrays_out e ''RECT_VAO'')
                (snd (snd (build_scene e vs_code fs_code (started e w))))
      in if fst r then (Returned 0, call GlfwTerminate (snd r)) else (StillRunning, snd r))"
    by (subst s) (simp add: Let_def split_def)
  finally show ?thesis .
qed

section \<open>When the loop exits, and after how many passes\<close>

lemma render_loop_exits:
  "fst (render_loop fs w p v s) = (should_close s \<or> (\<exists>f\<in>set fs. requests_close f))"
proof (induction fs arbitrary: s)
  case Nil
  show ?case by (simp add: glfwWindowShouldClose_def)
next
  case (Cons f fs)
  show ?case
    by (simp add: glfwWindowShouldClose_def Cons.IH should_close_loop_body call_def)
qed

lemma render_loop_closed:
  "should_close s \<Longrightarrow> render_loop fs w p v s = (True, call (GlfwWindowShouldClose w) s)"
  by (cases fs) (simp_all add: glfwWindowShouldClose_def)

lemma render_loop_last_pass:
  assumes "\<not> should_close s" and "requests_close f"
  shows "render_loop (f # fs) w p v s =
     (True, call (GlfwWindowShouldClose w)
              (loop_body f w p v (call (GlfwWindowShouldClose w) s)))"
proof -
  have "should_close (loop_body f w p v (call (GlfwWindowShouldClose w) s))"
    using assms(2) by (simp add: should_close_loop_body)
  then show ?thesis
    using assms(1) by (simp add: glfwWindowShouldClose_def render_loop_closed)
qed

lemma render_loop_flag:
  "fst (render_loop fs w p v s) \<Longrightarrow> should_close (snd (render_loop fs w p v s))"
proof (induction fs arbitrary: s)
  case Nil
  then show ?case by (simp add: glfwWindowShouldClose_def call_def)
next
  case (Cons f fs)
  show ?case
  proof (cases "should_close s")
    case True
    then show ?thesis by (simp add: glfwWindowShouldClose_def call_def)
  next
    case False
    with Cons.prems Cons.IH [of "loop_body f w p v (call (GlfwWindowShouldClose w) s)"]
    show ?thesis by (simp add: glfwWindowShouldClose_def)
  qed
qed

lemma count_viewports:
  "list_all is_viewport evs \<Longrightarrow> count_list evs (GlfwSwapBuffers w) = 0"
  by (induction evs) (auto elim: is_viewport.elims)

lemma loop_body_passes:
  "count_list (trace (loop_body f w p v s)) (GlfwSwapBuffers w)
     = Suc (count_list (trace s) (GlfwSwapBuffers w))"
proof -
  obtain b where b: "trace (loop_body f w p v s) = trace s @ pass_events f w p v @ b"
    "list_all is_viewport b"
    using loop_body_trace by blast
  have "count_list (pass_events f w p v) (GlfwSwapBuffers w) = 1"
    by (simp add: pass_events_def)
  with b count_viewports [OF b(2), of w] show ?thesis by simp
qed

lemma render_loop_passes:
  assumes "\<not> should_close s" and "\<exists>f\<in>set fs. requests_close f"
  shows "count_list (trace (snd (render_loop fs w p v s))) (GlfwSwapBuffers w)
     = count_list (trace s) (GlfwSwapBuffers w)
       + Suc (length (takeWhile (\<lambda>f. \<not> requests_close f) fs))"
  using assms
proof (induction fs arbitrary: s)
  case Nil
  then show ?case by simp
next
  case (Cons f fs)
  let ?s = "call (GlfwWindowShouldClose w) s"
  have c: "count_list (trace (loop_body f w p v ?s)) (GlfwSwapBuffers w)
      = Suc (count_list (trace s) (GlfwSwapBuffers w))"
    by (simp add: loop_body_passes call_def)
  show ?case
  proof (cases "requests_close f")
    case True
    have "trace (snd (render_loop (f # fs) w p v s))
        = trace (loop_body f w p v ?s) @ [GlfwWindowShouldClose w]"
      by (simp only: render_loop_last_pass [OF Cons.prems(1) True] snd_conv)
        (simp add: call_def)
    with c True show ?thesis by simp
  next
    case False
    then have n: "\<not> should_close (loop_body f w p v ?s)"
      using Cons.prems(1) by (simp add: should_close_loop_body call_def)
    from False Cons.prems(2) have "\<exists>f\<in>set fs. requests_close f" by simp
    from Cons.IH [OF n this] c False Cons.prems(1) show ?thesis
      by (simp add: glfwWindowShouldClose_def)
  qed
qed

lemma loop_body_keeps_flag:
  "should_close s \<Longrightarrow> should_close (loop_body f w p v s)"
  by (simp add: should_close_loop_body)

lemma files_readI:
  assumes "files e ''../src/vertex_shader.glsl'' = Some a" and "length a < 2 ^ 63"
    and "files e ''../src/fragment_shader.glsl'' = Some b" and "length b < 2 ^ 63"
    and "\<And>bl n. allocator e bl n \<noteq> None"
  shows "files_read e"
proof -
  obtain p where p: "allocator e (blocks (start_heap e)) (length a + 1) = Some p"
    using assms(5) by blast
  note r1 = read_entire_file_ok [OF assms(1,2) p]
  let ?h1 = "store p (length a + 1) 0
     (store_bytes p 0 a ((start_heap e)\<lparr>blocks := (p, length a + 1) # blocks (start_heap e)\<rparr>))"
  obtain q where q: "allocator e (blocks ?h1) (length b + 1) = Some q"
    using assms(5) by blast
  note r2 = read_entire_file_ok [OF assms(3,4) q]
  show ?thesis
    unfolding files_read_def by (simp only: r1 r2 sum.case prod.case)
qed

lemma files_read_env0:
  "files_read env0"
  "files_read (env0\<lparr>glfwCreateWindow_ret := None\<rparr>)"
  "files_read (env0\<lparr>gladLoadGLLoader_ret := 0\<rparr>)"
  "files_read (env0\<lparr>glfwInit_ret := 0\<rparr>)"
  by (rule files_readI [where a = "[118, 115]" and b = "[102, 114, 97]"];
      simp add: env0_def)+

section \<open>Exit codes\<close>

lemma main_loop_outcome:
  assumes "files_read e" and "glfwCreateWindow_ret e = Some w" and "gladLoadGLLoader_ret e \<noteq> 0"
  shows "fst (main e frames) = (if \<exists>f\<in>set frames. requests_close f then Returned 0 else StillRunning)"
    and "fst (main e frames) = Returned 0 \<Longrightarrow> should_close (snd (main e frames))"
proof -
  from assms(1) obtain vs_code h1 fs_code h2 where r:
    "read_entire_file e ''../src/vertex_shader.glsl'' (start_heap e) = Inr (vs_code, h1)"
    "read_entire_file e ''../src/fragment_shader.glsl'' h1 = Inr (fs_code, h2)"
    by (rule files_readE)
  let ?s = "snd (snd (build_scene e vs_code fs_code (started e w)))"
  let ?r = "render_loop frames w (glCreateProgram_ret e) (glGenVertexArrays_out e ''RECT_VAO'') ?s"
  have open_: "\<not> should_close ?s"
    by (simp add: build_scene_state Let_def started_def init_state_def)
  have m: "main e frames = (if fst ?r then (Returned 0, call GlfwTerminate (snd ?r))
      else (StillRunning, snd ?r))"
    using main_loop [OF r assms(2,3)] by (simp add: Let_def)
  show "fst (main e frames) = (if \<exists>f\<in>set frames. requests_close f then Returned 0 else StillRunning)"
    using m open_ by (simp add: render_loop_exits)
  show "should_close (snd (main e frames))" if "fst (main e frames) = Returned 0"
  proof -
    from that m have "fst ?r" by (simp split: if_splits)
    from render_loop_flag [OF this] m \<open>fst ?r\<close> show ?thesis by (simp add: call_def)
  qed
qed

text \<open>
  C6. When both files are read: \<^verbatim>\<open>main\<close> returns \<open>-1\<close> when \<^verbatim>\<open>glfwCreateWindow\<close> returns null,
  and when the window exists and \<^verbatim>\<open>gladLoadGLLoader\<close> returns 0; it returns 0 when both
  succeed and some pass sets the close flag (Escape down, or a close request), and the
  flag is set at that return. No run returns anything but \<open>-1\<close> or 0; \<open>-1\<close> is returned only
  for one of the two failures, and 0 only with the close flag set.
\<close>

theorem exit_codes:
  "(files_read e \<and> glfwCreateWindow_ret e = None \<longrightarrow> fst (main e frames) = Returned (- 1))
   \<and> (files_read e \<and> glfwCreateWindow_ret e \<noteq> None \<and> gladLoadGLLoader_ret e = 0
        \<longrightarrow> fst (main e frames) = Returned (- 1))
   \<and> (files_read e \<and> glfwCreateWindow_ret e \<noteq> None \<and> gladLoadGLLoader_ret e \<noteq> 0
        \<and> (\<exists>f\<in>set frames. requests_close f)
        \<longrightarrow> fst (main e frames) = Returned 0 \<and> should_close (snd (main e frames)))
   \<and> (fst (main e frames) = Returned c \<longrightarrow> c = - 1 \<or> c = 0)
   \<and> (fst (main e frames) = Returned (- 1)
        \<longrightarrow> glfwCreateWindow_ret e = None \<or> gladLoadGLLoader_ret e = 0)
   \<and> (fst (main e frames) = Returned 0 \<longrightarrow> should_close (snd (main e frames)))"
proof (cases "files_read e")
  case False
  then obtain f where "main e frames = (Crashed f, init_state e)"
    using main_crashed by blast
  with False show ?thesis by simp
next
  case True
  show ?thesis
  proof (cases "glfwCreateWindow_ret e")
    case None
    with True main_no_window [OF True None, of frames] show ?thesis by simp
  next
    case (Some w)
    show ?thesis
    proof (cases "gladLoadGLLoader_ret e = 0")
      case zero: True
      with True Some main_no_loader [OF True Some zero, of frames] show ?thesis by simp
    next
      case False
      from main_loop_outcome [OF True Some False, of frames] True Some False
      show ?thesis by (auto split: if_splits)
    qed
  qed
qed

theorem exit_codes_witness:
  "files_read (env0\<lparr>glfwCreateWindow_ret := None\<rparr>)
   \<and> glfwCreateWindow_ret (env0\<lparr>glfwCreateWindow_ret := None\<rparr>) = None
   \<and> fst (main (env0\<lparr>glfwCreateWindow_ret := None\<rparr>) frames0) = Returned (- 1)
   \<and> files_read (env0\<lparr>gladLoadGLLoader_ret := 0\<rparr>)
   \<and> glfwCreateWindow_ret (env0\<lparr>gladLoadGLLoader_ret := 0\<rparr>) = Some 64
   \<and> gladLoadGLLoader_ret (env0\<lparr>gladLoadGLLoader_ret := 0\<rparr>) = 0
   \<and> fst (main (env0\<lparr>gladLoadGLLoader_ret := 0\<rparr>) frames0) = Returned (- 1)
   \<and> files_read env0 \<and> glfwCreateWindow_ret env0 = Some 64 \<and> gladLoadGLLoader_ret env0 = 1
   \<and> escape_frame \<in> set frames0 \<and> requests_close escape_frame
   \<and> fst (main env0 frames0) = Returned 0
   \<and> should_close (snd (main env0 frames0))"
proof -
  note r = files_read_env0(2,3,1)
  have h: "glfwCreateWindow_ret (env0\<lparr>glfwCreateWindow_ret := None\<rparr>) = None"
    "glfwCreateWindow_ret (env0\<lparr>gladLoadGLLoader_ret := 0\<rparr>) = Some 64"
    "gladLoadGLLoader_ret (env0\<lparr>gladLoadGLLoader_ret := 0\<rparr>) = 0"
    "glfwCreateWindow_ret env0 = Some 64" "gladLoadGLLoader_ret env0 = 1"
    "escape_frame \<in> set frames0" "requests_close escape_frame"
    by (simp_all add: env0_def frames0_def requests_close_def escape_frame_def GLFW_PRESS_def)
  have c: "\<exists>f\<in>set frames0. requests_close f"
    by (simp add: frames0_def requests_close_def escape_frame_def GLFW_PRESS_def GLFW_RELEASE_def)
  have "fst (main (env0\<lparr>glfwCreateWindow_ret := None\<rparr>) frames0) = Returned (- 1)"
    using exit_codes [of "env0\<lparr>glfwCreateWindow_ret := None\<rparr>" frames0] r(1) by simp
  moreover have "fst (main (env0\<lparr>gladLoadGLLoader_ret := 0\<rparr>) frames0) = Returned (- 1)"
    using exit_codes [of "env0\<lparr>gladLoadGLLoader_ret := 0\<rparr>" frames0] r(2)
    by (simp add: env0_def)
  moreover have "fst (main env0 frames0) = Returned 0 \<and> should_close (snd (main env0 frames0))"
    using exit_codes [of env0 frames0] r(3) c by (simp add: env0_def)
  ultimately show ?thesis using r h by simp
qed

section \<open>The end of the loop\<close>

lemma scene_open:
  "\<not> should_close (snd (snd (build_scene e vs_code fs_code (started e w))))"
  by (simp add: build_scene_state Let_def started_def init_state_def)

lemma scene_no_pass:
  "count_list (trace (snd (snd (build_scene e vs_code fs_code (started e w))))) (GlfwSwapBuffers w) = 0"
  by (simp add: build_scene_state Let_def started_def init_state_def)

lemma main_passes:
  assumes "files_read e" and "glfwCreateWindow_ret e = Some w" and "gladLoadGLLoader_ret e \<noteq> 0"
    and "\<exists>f\<in>set frames. requests_close f"
  shows "count_list (trace (snd (main e frames))) (GlfwSwapBuffers w)
       = Suc (length (takeWhile (\<lambda>f. \<not> requests_close f) frames))"
    and "last (trace (snd (main e frames))) = GlfwTerminate"
proof -
  from assms(1) obtain vs_code h1 fs_code h2 where r:
    "read_entire_file e ''../src/vertex_shader.glsl'' (start_heap e) = Inr (vs_code, h1)"
    "read_entire_file e ''../src/fragment_shader.glsl'' h1 = Inr (fs_code, h2)"
    by (rule files_readE)
  let ?s = "snd (snd (build_scene e vs_code fs_code (started e w)))"
  let ?r = "render_loop frames w (glCreateProgram_ret e) (glGenVertexArrays_out e ''RECT_VAO'') ?s"
  have "fst ?r"
    using assms(4) by (simp add: render_loop_exits)
  then have m: "main e frames = (Returned 0, call GlfwTerminate (snd ?r))"
    using main_loop [OF r assms(2,3)] by (simp add: Let_def)
  have "count_list (trace (snd ?r)) (GlfwSwapBuffers w)
      = count_list (trace ?s) (GlfwSwapBuffers w)
        + Suc (length (takeWhile (\<lambda>f. \<not> requests_close f) frames))"
    by (rule render_loop_passes [OF scene_open assms(4)])
  then show "count_list (trace (snd (main e frames))) (GlfwSwapBuffers w)
       = Suc (length (takeWhile (\<lambda>f. \<not> requests_close f) frames))"
    by (simp add: m call_def scene_no_pass)
  show "last (trace (snd (main e frames))) = GlfwTerminate"
    by (simp add: m call_def)
qed

text \<open>
  C7. No pass through the body of the loop clears the close flag. When the flag is set at
  the check of line 189, the loop exits with no further pass. When it is unset at the
  check and the pass that follows sets it (Escape down at \<^verbatim>\<open>process_input\<close>, or a close
  request at \<^verbatim>\<open>glfwPollEvents\<close>), that pass is completed and is the last one: the next
  check exits the loop. In a run of \<^verbatim>\<open>main\<close> that reaches the loop, the number of passes
  (calls of \<^verbatim>\<open>glfwSwapBuffers\<close>) is the number of passes that do not ask to close, plus
  the one that does; the last call is \<^verbatim>\<open>glfwTerminate\<close> and \<^verbatim>\<open>main\<close> returns 0.
\<close>

theorem close_flag_ends_loop:
  "(should_close s \<longrightarrow> should_close (loop_body f w p v s))
   \<and> (should_close s \<longrightarrow> render_loop fs w p v s = (True, call (GlfwWindowShouldClose w) s))
   \<and> (\<not> should_close s \<and> requests_close f \<longrightarrow>
        render_loop (f # fs) w p v s =
          (True, call (GlfwWindowShouldClose w)
                   (loop_body f w p v (call (GlfwWindowShouldClose w) s))))
   \<and> (files_read e \<and> glfwCreateWindow_ret e = Some w \<and> gladLoadGLLoader_ret e \<noteq> 0
        \<and> (\<exists>f\<in>set frames. requests_close f) \<longrightarrow>
        fst (main e frames) = Returned 0
        \<and> count_list (trace (snd (main e frames))) (GlfwSwapBuffers w)
            = Suc (length (takeWhile (\<lambda>f. \<not> requests_close f) frames))
        \<and> last (trace (snd (main e frames))) = GlfwTerminate)"
  using loop_body_keeps_flag [of s f w p v] render_loop_closed [of s fs w p v]
    render_loop_last_pass [of s f fs w p v] main_passes [of e w frames]
    main_loop_outcome(1) [of e w frames]
  by simp

theorem close_flag_ends_loop_witness:
  "files_read env0 \<and> glfwCreateWindow_ret env0 = Some 64 \<and> gladLoadGLLoader_ret env0 = 1
   \<and> frames0 = [resize_frame, escape_frame]
   \<and> \<not> requests_close resize_frame \<and> requests_close escape_frame
   \<and> fst (main env0 frames0) = Returned 0
   \<and> count_list (trace (snd (main env0 frames0))) (GlfwSwapBuffers 64) = 2
   \<and> last (trace (snd (main env0 frames0))) = GlfwTerminate
   \<and> \<not> should_close (started env0 64)
   \<and> render_loop [escape_frame, resize_frame] 64 3 2 (started env0 64) =
       (True, call (GlfwWindowShouldClose 64)
                (loop_body escape_frame 64 3 2
                   (call (GlfwWindowShouldClose 64) (started env0 64))))"
proof -
  have g: "glfwCreateWindow_ret env0 = Some 64" "gladLoadGLLoader_ret env0 = 1"
    "frames0 = [resize_frame, escape_frame]"
    "\<not> requests_close resize_frame" "requests_close escape_frame"
    "\<not> should_close (started env0 64)"
    by (simp_all add: env0_def frames0_def requests_close_def escape_frame_def resize_frame_def
        GLFW_PRESS_def GLFW_RELEASE_def started_def init_state_def)
  have k: "render_loop [escape_frame, resize_frame] 64 3 2 (started env0 64) =
       (True, call (GlfwWindowShouldClose 64)
                (loop_body escape_frame 64 3 2
                   (call (GlfwWindowShouldClose 64) (started env0 64))))"
    using close_flag_ends_loop [where s = "started env0 64" and f = escape_frame
        and fs = "[resize_frame]" and w = 64 and p = 3 and v = 2] g(5,6)
    by blast
  have h: "glfwCreateWindow_ret env0 = Some 64" "gladLoadGLLoader_ret env0 \<noteq> 0"
    by (simp_all add: env0_def)
  have c: "\<exists>f\<in>set frames0. requests_close f"
    by (simp add: frames0_def requests_close_def escape_frame_def GLFW_PRESS_def GLFW_RELEASE_def)
  have n: "Suc (length (takeWhile (\<lambda>f. \<not> requests_close f) frames0)) = 2"
    by (simp add: frames0_def requests_close_def escape_frame_def resize_frame_def GLFW_PRESS_def GLFW_RELEASE_def)
  have l: "length frames0 = 2"
    by (simp add: frames0_def)
  have "files_read env0 \<and> glfwCreateWindow_ret env0 = Some 64 \<and> gladLoadGLLoader_ret env0 \<noteq> 0
      \<and> (\<exists>f\<in>set frames0. requests_close f)"
    using files_read_env0(1) h c by simp
  with close_flag_ends_loop [where e = env0 and w = 64 and frames = frames0]
  have "fst (main env0 frames0) = Returned 0
      \<and> count_list (trace (snd (main env0 frames0))) (GlfwSwapBuffers 64)
          = Suc (length (takeWhile (\<lambda>f. \<not> requests_close f) frames0))
      \<and> last (trace (snd (main env0 frames0))) = GlfwTerminate"
    by blast
  with n l g k files_read_env0(1) show ?thesis by simp
qed

section \<open>The globals over a whole run\<close>

lemma scene_quiet:
  "quiet (snd (snd (build_scene e vs_code fs_code (started e w))))"
  "window_width (snd (snd (build_scene e vs_code fs_code (started e w)))) = 1280"
  "window_height (snd (snd (build_scene e vs_code fs_code (started e w)))) = 720"
  "framebuffer_size_fun (snd (snd (build_scene e vs_code fs_code (started e w))))
     = Some Framebuffer_size_callback"
  by (simp_all add: build_scene_state Let_def started_def init_state_def quiet_def)

lemma render_loop_callbacks:
  "framebuffer_size_fun (snd (render_loop fs w p v s)) = framebuffer_size_fun s"
  "window_size_fun (snd (render_loop fs w p v s)) = window_size_fun s"
proof -
  obtain t c ww wh where "snd (render_loop fs w p v s) =
     s\<lparr>trace := t, should_close := c, window_width := ww, window_height := wh\<rparr>"
    using render_loop_frame by blast
  then show "framebuffer_size_fun (snd (render_loop fs w p v s)) = framebuffer_size_fun s"
    "window_size_fun (snd (render_loop fs w p v s)) = window_size_fun s"
    by simp_all
qed

lemma main_globals:
  "window_width (snd (main e frames)) = 1280"
  "window_height (snd (main e frames)) = 720"
  "window_size_fun (snd (main e frames)) = None"
  "framebuffer_size_fun (snd (main e frames)) = None
     \<or> framebuffer_size_fun (snd (main e frames)) = Some Framebuffer_size_callback"
proof -
  have "window_width (snd (main e frames)) = 1280 \<and> window_height (snd (main e frames)) = 720
    \<and> window_size_fun (snd (main e frames)) = None
    \<and> (framebuffer_size_fun (snd (main e frames)) = None
       \<or> framebuffer_size_fun (snd (main e frames)) = Some Framebuffer_size_callback)"
  proof (cases "files_read e")
    case False
    then obtain f where "main e frames = (Crashed f, init_state e)"
      using main_crashed by blast
    then show ?thesis by (simp add: init_state_def)
  next
    case True
    show ?thesis
    proof (cases "glfwCreateWindow_ret e")
      case None
      with main_no_window [OF True None, of frames] show ?thesis
        by (simp add: init_state_def)
    next
      case (Some w)
      show ?thesis
      proof (cases "gladLoadGLLoader_ret e = 0")
        case zero: True
        with main_no_loader [OF True Some zero, of frames] show ?thesis
          by (simp add: started_def init_state_def)
      next
        case False
        from True obtain vs_code h1 fs_code h2 where r:
          "read_entire_file e ''../src/vertex_shader.glsl'' (start_heap e) = Inr (vs_code, h1)"
          "read_entire_file e ''../src/fragment_shader.glsl'' h1 = Inr (fs_code, h2)"
          by (rule files_readE)
        let ?s = "snd (snd (build_scene e vs_code fs_code (started e w)))"
        let ?r = "render_loop frames w (glCreateProgram_ret e)
                    (glGenVertexArrays_out e ''RECT_VAO'') ?s"
        have m: "snd (main e frames) = (if fst ?r then call GlfwTerminate (snd ?r) else snd ?r)"
          using main_loop [OF r Some False] by (simp add: Let_def)
        have "window_width (snd ?r) = window_width ?s \<and> window_height (snd ?r) = window_height ?s
            \<and> quiet (snd ?r)"
          by (rule render_loop_globals [OF scene_quiet(1)])
        moreover have "framebuffer_size_fun (snd ?r) = framebuffer_size_fun ?s"
          "window_size_fun (snd ?r) = window_size_fun ?s"
          by (rule render_loop_callbacks)+
        ultimately show ?thesis
          by (simp add: m scene_quiet call_def quiet_def)
      qed
    qed
  qed
  then show "window_width (snd (main e frames)) = 1280"
    "window_height (snd (main e frames)) = 720"
    "window_size_fun (snd (main e frames)) = None"
    "framebuffer_size_fun (snd (main e frames)) = None
     \<or> framebuffer_size_fun (snd (main e frames)) = Some Framebuffer_size_callback"
    by simp_all
qed

lemma deliver_resize:
  assumes "framebuffer_size_fun s = Some Framebuffer_size_callback" and "window_size_fun s = None"
  shows "deliver (FramebufferResized width height) s
           = s\<lparr>trace := trace s @ [GlViewport 0 0 width height]\<rparr>"
    and "deliver (WindowResized width height) s = s"
  using assms by (simp_all add: framebuffer_size_callback_def call_def)

lemma reads_env0:
  obtains h1 h2 where
    "read_entire_file env0 ''../src/vertex_shader.glsl'' (start_heap env0)
       = Inr (\<lparr>data = 4096, size_fc = 3\<rparr>, h1)"
    "read_entire_file env0 ''../src/fragment_shader.glsl'' h1
       = Inr (\<lparr>data = 4160, size_fc = 4\<rparr>, h2)"
proof -
  have a: "files env0 ''../src/vertex_shader.glsl'' = Some [118, 115]"
    "length [118, 115 :: byte] < 2 ^ 63"
    "allocator env0 (blocks (start_heap env0)) (length [118, 115 :: byte] + 1) = Some 4096"
    by (simp_all add: env0_def)
  from read_entire_file_ok [OF a]
  obtain h1 where h1:
    "read_entire_file env0 ''../src/vertex_shader.glsl'' (start_heap env0)
       = Inr (\<lparr>data = 4096, size_fc = 3\<rparr>, h1)"
    "length (blocks h1) = 1"
    by (simp add: env0_def)
  have b: "files env0 ''../src/fragment_shader.glsl'' = Some [102, 114, 97]"
    "length [102, 114, 97 :: byte] < 2 ^ 63"
    "allocator env0 (blocks h1) (length [102, 114, 97 :: byte] + 1) = Some 4160"
    using h1(2) by (simp_all add: env0_def)
  from read_entire_file_ok [OF b]
  obtain h2 where
    "read_entire_file env0 ''../src/fragment_shader.glsl'' h1
       = Inr (\<lparr>data = 4160, size_fc = 4\<rparr>, h2)"
    by simp
  with h1(1) that show ?thesis by blast
qed

lemma main_env0:
  "main env0 frames0 =
    (Returned 0,
     \<lparr>trace =
        [GlfwInit, GlfwWindowHint GLFW_CONTEXT_VERSION_MAJOR 3,
         GlfwWindowHint GLFW_CONTEXT_VERSION_MINOR 3,
         GlfwCreateWindow 1280 720 ''OpenGL experiment'',
         GlfwMakeContextCurrent 64,
         GlfwSetFramebufferSizeCallback 64 Framebuffer_size_callback,
         GladLoadGLLoader,
         GlCreateShader GL_VERTEX_SHADER, GlShaderSource 1 1 4096, GlCompileShader 1,
         GlGetShaderiv 1 GL_COMPILE_STATUS,
         GlCreateShader GL_FRAGMENT_SHADER, GlShaderSource 2 1 4160, GlCompileShader 2,
         GlGetShaderiv 2 GL_COMPILE_STATUS,
         GlCreateProgram, GlAttachShader 3 1, GlAttachShader 3 2, GlLinkProgram 3,
         GlGetProgramiv 3 GL_COMPILE_STATUS, GlGetProgramInfoLog 3 512,
         Printf ''ERROR::SHADER::PROGRAM::COMPILATION_FAILED\<newline>%s\<newline>'' [[63, 0]],
         GlUseProgram 3, GlDeleteShader 1, GlDeleteShader 2,
         GlGenVertexArrays 1, GlGenBuffers 1, GlBindVertexArray 1,
         GlBindBuffer GL_ARRAY_BUFFER 1,
         GlBufferData GL_ARRAY_BUFFER 36 (Floats vertices) GL_STATIC_DRAW,
         GlVertexAttribPointer 0 3 GL_FLOAT GL_FALSE 12 0, GlEnableVertexAttribArray 0,
         GlGenVertexArrays 1, GlGenBuffers 1, GlBindVertexArray 2,
         GlBindBuffer GL_ARRAY_BUFFER 2,
         GlBufferData GL_ARRAY_BUFFER 48 (Floats rect_vertices) GL_STATIC_DRAW,
         GlGenBuffers 1, GlBindBuffer GL_ELEMENT_ARRAY_BUFFER 3,
         GlBufferData GL_ELEMENT_ARRAY_BUFFER 24 (UInts indices) GL_STATIC_DRAW,
         GlVertexAttribPointer 0 3 GL_FLOAT GL_FALSE 12 0, GlEnableVertexAttribArray 0,
         GlfwWindowShouldClose 64,
         GlfwGetKey 64 GLFW_KEY_ESCAPE,
         GlClearColor 0.2 0.3 0.3 1.0, GlClear GL_COLOR_BUFFER_BIT, GlUseProgram 3,
         GlBindVertexArray 2, GlDrawElements GL_TRIANGLES 6 GL_UNSIGNED_INT 0,
         GlBindVertexArray 0, GlfwSwapBuffers 64, GlfwPollEvents,
         GlViewport 0 0 800 600,
         GlfwWindowShouldClose 64,
         GlfwGetKey 64 GLFW_KEY_ESCAPE, GlfwSetWindowShouldClose 64 True,
         GlClearColor 0.2 0.3 0.3 1.0, GlClear GL_COLOR_BUFFER_BIT, GlUseProgram 3,
         GlBindVertexArray 2, GlDrawElements GL_TRIANGLES 6 GL_UNSIGNED_INT 0,
         GlBindVertexArray 0, GlfwSwapBuffers 64, GlfwPollEvents,
         GlfwWindowShouldClose 64,
         GlfwTerminate],
      window_width = 1280, window_height = 720, should_close = True,
      framebuffer_size_fun = Some Framebuffer_size_callback, window_size_fun = None,
      vs_success = 1, vs_infolog = [63, 0], fs_success = 1, fs_infolog = [63, 0],
      sp_success = 0, sp_infolog = [108, 0]\<rparr>)"
proof -
  have w: "glfwCreateWindow_ret env0 = Some 64" "gladLoadGLLoader_ret env0 \<noteq> 0"
    by (simp_all add: env0_def)
  have s: "snd (snd (build_scene env0 \<lparr>data = 4096, size_fc = 3\<rparr> \<lparr>data = 4160, size_fc = 4\<rparr>
              (started env0 64))) =
     \<lparr>trace =
        [GlfwInit, GlfwWindowHint GLFW_CONTEXT_VERSION_MAJOR 3,
         GlfwWindowHint GLFW_CONTEXT_VERSION_MINOR 3,
         GlfwCreateWindow 1280 720 ''OpenGL experiment'',
         GlfwMakeContextCurrent 64,
         GlfwSetFramebufferSizeCallback 64 Framebuffer_size_callback,
         GladLoadGLLoader,
         GlCreateShader GL_VERTEX_SHADER, GlShaderSource 1 1 4096, GlCompileShader 1,
         GlGetShaderiv 1 GL_COMPILE_STATUS,
         GlCreateShader GL_FRAGMENT_SHADER, GlShaderSource 2 1 4160, GlCompileShader 2,
         GlGetShaderiv 2 GL_COMPILE_STATUS,
         GlCreateProgram, GlAttachShader 3 1, GlAttachShader 3 2, GlLinkProgram 3,
         GlGetProgramiv 3 GL_COMPILE_STATUS, GlGetProgramInfoLog 3 512,
         Printf ''ERROR::SHADER::PROGRAM::COMPILATION_FAILED\<newline>%s\<newline>'' [[63, 0]],
         GlUseProgram 3, GlDeleteShader 1, GlDeleteShader 2,
         GlGenVertexArrays 1, GlGenBuffers 1, GlBindVertexArray 1,
         GlBindBuffer GL_ARRAY_BUFFER 1,
         GlBufferData GL_ARRAY_BUFFER 36 (Floats vertices) GL_STATIC_DRAW,
         GlVertexAttribPointer 0 3 GL_FLOAT GL_FALSE 12 0, GlEnableVertexAttribArray 0,
         GlGenVertexArrays 1, GlGenBuffers 1, GlBindVertexArray 2,
         GlBindBuffer GL_ARRAY_BUFFER 2,
         GlBufferData GL_ARRAY_BUFFER 48 (Floats rect_vertices) GL_STATIC_DRAW,
         GlGenBuffers 1, GlBindBuffer GL_ELEMENT_ARRAY_BUFFER 3,
         GlBufferData GL_ELEMENT_ARRAY_BUFFER 24 (UInts indices) GL_STATIC_DRAW,
         GlVertexAttribPointer 0 3 GL_FLOAT GL_FALSE 12 0, GlEnableVertexAttribArray 0],
      window_width = 1280, window_height = 720, should_close = False,
      framebuffer_size_fun = Some Framebuffer_size_callback, window_size_fun = None,
      vs_success = 1, vs_infolog = [63, 0], fs_success = 1, fs_infolog = [63, 0],
      sp_success = 0, sp_infolog = [108, 0]\<rparr>"
    by (simp add: build_scene_state Let_def started_def init_state_def env0_def out_param_def)
  have p: "glCreateProgram_ret env0 = 3" "glGenVertexArrays_out env0 ''RECT_VAO'' = 2"
    by (simp_all add: env0_def)
  obtain h1 h2 where r:
    "read_entire_file env0 ''../src/vertex_shader.glsl'' (start_heap env0)
       = Inr (\<lparr>data = 4096, size_fc = 3\<rparr>, h1)"
    "read_entire_file env0 ''../src/fragment_shader.glsl'' h1
       = Inr (\<lparr>data = 4160, size_fc = 4\<rparr>, h2)"
    by (rule reads_env0)
  show ?thesis
    by (simp only: main_loop [OF r w] s p)
      (simp add: frames0_def resize_frame_def escape_frame_def loop_body_def process_input_def
        render_def glfwPollEvents_def api_defs Let_def GLFW_PRESS_def GLFW_RELEASE_def
        framebuffer_size_callback_def)
qed

section \<open>The whole trace of a run that reaches the loop\<close>

lemma main_reached:
  assumes "read_entire_file e ''../src/vertex_shader.glsl'' (start_heap e) = Inr (vs_code, h1)"
    and "read_entire_file e ''../src/fragment_shader.glsl'' h1 = Inr (fs_code, h2)"
    and "glfwCreateWindow_ret e = Some w" and "gladLoadGLLoader_ret e \<noteq> 0"
  shows "\<exists>evs c ww wh.
     snd (main e frames) =
       (snd (snd (build_scene e vs_code fs_code (started e w))))
         \<lparr>trace := trace (snd (snd (build_scene e vs_code fs_code (started e w)))) @ evs,
          should_close := c, window_width := ww, window_height := wh\<rparr>
     \<and> list_all (\<lambda>ev. loop_event ev \<or> ev = GlfwTerminate) evs"
proof -
  let ?s = "snd (snd (build_scene e vs_code fs_code (started e w)))"
  let ?r = "render_loop frames w (glCreateProgram_ret e) (glGenVertexArrays_out e ''RECT_VAO'') ?s"
  obtain t c ww wh where f: "snd ?r =
      ?s\<lparr>trace := t, should_close := c, window_width := ww, window_height := wh\<rparr>"
    using render_loop_frame by blast
  obtain evs where evs: "trace (snd ?r) = trace ?s @ evs" "list_all loop_event evs"
    using render_loop_events by blast
  from evs(1) [unfolded f] have t: "t = trace ?s @ evs"
    by simp
  have m: "snd (main e frames) = (if fst ?r then call GlfwTerminate (snd ?r) else snd ?r)"
    using main_loop [OF assms] by (simp add: Let_def)
  show ?thesis
  proof (cases "fst ?r")
    case True
    have "snd (main e frames) =
        ?s\<lparr>trace := trace ?s @ (evs @ [GlfwTerminate]), should_close := c, window_width := ww,
           window_height := wh\<rparr>"
      using True m by (simp add: f t call_def)
    moreover have "list_all (\<lambda>ev. loop_event ev \<or> ev = GlfwTerminate) (evs @ [GlfwTerminate])"
      using evs(2) by (simp add: list_all_iff)
    ultimately show ?thesis by blast
  next
    case False
    have "snd (main e frames) =
        ?s\<lparr>trace := trace ?s @ evs, should_close := c, window_width := ww, window_height := wh\<rparr>"
      using False m by (simp add: f t)
    moreover have "list_all (\<lambda>ev. loop_event ev \<or> ev = GlfwTerminate) evs"
      using evs(2) by (simp add: list_all_iff)
    ultimately show ?thesis by blast
  qed
qed

lemma tail_event:
  "list_all (\<lambda>ev. loop_event ev \<or> ev = GlfwTerminate) evs \<Longrightarrow> x \<in> set evs \<Longrightarrow>
   loop_event x \<or> x = GlfwTerminate"
  by (simp add: list_all_iff)

lemma tail_no_geometry:
  "list_all (\<lambda>ev. loop_event ev \<or> ev = GlfwTerminate) evs \<Longrightarrow> filter changes_geometry evs = []"
proof (induction evs)
  case Nil
  show ?case by simp
next
  case (Cons x xs)
  then have "loop_event x \<or> x = GlfwTerminate" by simp
  then have "\<not> changes_geometry x" by (cases x) simp_all
  with Cons show ?case by simp
qed

lemma loop_no_geometry:
  "list_all loop_event evs \<Longrightarrow> filter changes_geometry evs = []"
  by (rule tail_no_geometry) (simp add: list_all_iff)

section \<open>Geometry\<close>

lemma scene_geometry:
  "filter changes_geometry (trace (snd (snd (build_scene e vs_code fs_code (started e w))))) =
     [GlGenVertexArrays 1, GlGenBuffers 1,
      GlBindBuffer GL_ARRAY_BUFFER (glGenBuffers_out e ''VBO''),
      GlBufferData GL_ARRAY_BUFFER 36 (Floats vertices) GL_STATIC_DRAW,
      GlVertexAttribPointer 0 3 GL_FLOAT GL_FALSE 12 0,
      GlEnableVertexAttribArray 0,
      GlGenVertexArrays 1, GlGenBuffers 1,
      GlBindBuffer GL_ARRAY_BUFFER (glGenBuffers_out e ''RECT_VBO''),
      GlBufferData GL_ARRAY_BUFFER 48 (Floats rect_vertices) GL_STATIC_DRAW,
      GlGenBuffers 1,
      GlBindBuffer GL_ELEMENT_ARRAY_BUFFER (glGenBuffers_out e ''EBO''),
      GlBufferData GL_ELEMENT_ARRAY_BUFFER 24 (UInts indices) GL_STATIC_DRAW,
      GlVertexAttribPointer 0 3 GL_FLOAT GL_FALSE 12 0,
      GlEnableVertexAttribArray 0]"
  by (simp add: build_scene_state Let_def started_def init_state_def)

lemma render_loop_geometry:
  "filter changes_geometry (trace (snd (render_loop fs w p v s)))
     = filter changes_geometry (trace s)"
proof -
  obtain evs where "trace (snd (render_loop fs w p v s)) = trace s @ evs"
    "list_all loop_event evs"
    using render_loop_events by blast
  then show ?thesis by (simp add: loop_no_geometry)
qed

lemma main_geometry:
  assumes "files_read e" and "glfwCreateWindow_ret e = Some w" and "gladLoadGLLoader_ret e \<noteq> 0"
  shows "filter changes_geometry (trace (snd (main e frames))) =
     [GlGenVertexArrays 1, GlGenBuffers 1,
      GlBindBuffer GL_ARRAY_BUFFER (glGenBuffers_out e ''VBO''),
      GlBufferData GL_ARRAY_BUFFER 36 (Floats vertices) GL_STATIC_DRAW,
      GlVertexAttribPointer 0 3 GL_FLOAT GL_FALSE 12 0,
      GlEnableVertexAttribArray 0,
      GlGenVertexArrays 1, GlGenBuffers 1,
      GlBindBuffer GL_ARRAY_BUFFER (glGenBuffers_out e ''RECT_VBO''),
      GlBufferData GL_ARRAY_BUFFER 48 (Floats rect_vertices) GL_STATIC_DRAW,
      GlGenBuffers 1,
      GlBindBuffer GL_ELEMENT_ARRAY_BUFFER (glGenBuffers_out e ''EBO''),
      GlBufferData GL_ELEMENT_ARRAY_BUFFER 24 (UInts indices) GL_STATIC_DRAW,
      GlVertexAttribPointer 0 3 GL_FLOAT GL_FALSE 12 0,
      GlEnableVertexAttribArray 0]"
proof -
  from assms(1) obtain vs_code h1 fs_code h2 where r:
    "read_entire_file e ''../src/vertex_shader.glsl'' (start_heap e) = Inr (vs_code, h1)"
    "read_entire_file e ''../src/fragment_shader.glsl'' h1 = Inr (fs_code, h2)"
    by (rule files_readE)
  let ?s = "snd (snd (build_scene e vs_code fs_code (started e w)))"
  obtain evs c ww wh where m: "snd (main e frames) =
      ?s\<lparr>trace := trace ?s @ evs, should_close := c, window_width := ww, window_height := wh\<rparr>"
    "list_all (\<lambda>ev. loop_event ev \<or> ev = GlfwTerminate) evs"
    using main_reached [OF r assms(2,3)] by blast
  show ?thesis
    by (simp add: m(1) tail_no_geometry [OF m(2)] scene_geometry)
qed

section \<open>The calls of the loop, exactly\<close>

lemma deliver_registered:
  assumes "registered s"
  shows "deliver ev s = s\<lparr>trace := trace s @ viewports [ev],
                        should_close := should_close s \<or> ev = CloseRequested\<rparr>"
  using assms
  by (cases ev) (simp_all add: registered_def framebuffer_size_callback_def call_def)

lemma fold_deliver_registered:
  "registered s \<Longrightarrow>
   fold deliver evs s = s\<lparr>trace := trace s @ viewports evs,
                          should_close := should_close s \<or> CloseRequested \<in> set evs\<rparr>"
proof (induction evs arbitrary: s)
  case Nil
  then show ?case by simp
next
  case (Cons ev evs)
  let ?s = "s\<lparr>trace := trace s @ viewports [ev],
               should_close := should_close s \<or> ev = CloseRequested\<rparr>"
  have d: "deliver ev s = ?s"
    by (rule deliver_registered [OF Cons.prems])
  have "registered ?s"
    using Cons.prems by (simp add: registered_def)
  from Cons.IH [OF this] d show ?case
    by (cases ev) auto
qed

lemma loop_body_registered:
  assumes "registered s"
  shows "trace (loop_body f w p v s) = trace s @ pass_events f w p v @ viewports (os_events f)"
    and "registered (loop_body f w p v s)"
proof -
  let ?s = "call GlfwPollEvents (call (GlfwSwapBuffers w) (render p v (process_input f w s)))"
  have r: "registered ?s"
    using assms by (simp add: registered_def process_input_def render_def api_defs Let_def)
  have b: "loop_body f w p v s = fold deliver (os_events f) ?s"
    by (simp add: loop_body_def glfwPollEvents_def Let_def)
  show "trace (loop_body f w p v s) = trace s @ pass_events f w p v @ viewports (os_events f)"
    by (simp add: b fold_deliver_registered [OF r] trace_before_poll)
  show "registered (loop_body f w p v s)"
    using r by (simp add: b fold_deliver_registered [OF r] registered_def)
qed

lemma render_loop_registered:
  "registered s \<Longrightarrow> \<not> should_close s \<Longrightarrow>
   trace (snd (render_loop fs w p v s)) = trace s @ loop_calls fs w p v"
proof (induction fs arbitrary: s)
  case Nil
  then show ?case by (simp add: api_defs)
next
  case (Cons f fs)
  let ?s = "call (GlfwWindowShouldClose w) s"
  let ?b = "loop_body f w p v ?s"
  have r: "registered ?s" "\<not> should_close ?s" "trace ?s = trace s @ [GlfwWindowShouldClose w]"
    using Cons.prems by (simp_all add: registered_def call_def)
  note b = loop_body_registered [OF r(1), of f w p v]
  have c: "should_close ?b = requests_close f"
    using r(2) by (simp add: should_close_loop_body)
  have step: "snd (render_loop (f # fs) w p v s) = snd (render_loop fs w p v ?b)"
    using Cons.prems(2) by (simp add: glfwWindowShouldClose_def)
  show ?case
  proof (cases "requests_close f")
    case True
    then have "render_loop fs w p v ?b = (True, call (GlfwWindowShouldClose w) ?b)"
      using c by (simp add: render_loop_closed)
    then have "trace (snd (render_loop fs w p v ?b)) = trace ?b @ [GlfwWindowShouldClose w]"
      by (simp add: call_def)
    then have "trace (snd (render_loop (f # fs) w p v s))
        = (trace s @ [GlfwWindowShouldClose w]) @ (pass_events f w p v @ viewports (os_events f))
          @ [GlfwWindowShouldClose w]"
      by (simp only: step b(1) r(3) append_assoc)
    then show ?thesis
      using True by simp
  next
    case False
    then have "\<not> should_close ?b" using c by simp
    from Cons.IH [OF b(2) this]
    have "trace (snd (render_loop (f # fs) w p v s))
        = ((trace s @ [GlfwWindowShouldClose w]) @ (pass_events f w p v @ viewports (os_events f)))
          @ loop_calls fs w p v"
      by (simp only: step b(1) r(3) append_assoc)
    then show ?thesis
      using False by simp
  qed
qed

lemma scene_registered:
  "registered (snd (snd (build_scene e vs_code fs_code (started e w))))"
  by (simp add: registered_def build_scene_state Let_def started_def init_state_def)

lemma main_trace:
  assumes "read_entire_file e ''../src/vertex_shader.glsl'' (start_heap e) = Inr (vs_code, h1)"
    and "read_entire_file e ''../src/fragment_shader.glsl'' h1 = Inr (fs_code, h2)"
    and "glfwCreateWindow_ret e = Some w" and "gladLoadGLLoader_ret e \<noteq> 0"
  shows "trace (snd (main e frames)) =
     trace (snd (snd (build_scene e vs_code fs_code (started e w)))) @
     loop_calls frames w (glCreateProgram_ret e) (glGenVertexArrays_out e ''RECT_VAO'') @
     (if \<exists>f\<in>set frames. requests_close f then [GlfwTerminate] else [])"
proof -
  let ?s = "snd (snd (build_scene e vs_code fs_code (started e w)))"
  let ?r = "render_loop frames w (glCreateProgram_ret e) (glGenVertexArrays_out e ''RECT_VAO'') ?s"
  have m: "snd (main e frames) = (if fst ?r then call GlfwTerminate (snd ?r) else snd ?r)"
    using main_loop [OF assms] by (simp add: Let_def)
  have f: "fst ?r = (\<exists>f\<in>set frames. requests_close f)"
    using scene_open [of e vs_code fs_code w] by (simp add: render_loop_exits)
  have t: "trace (snd ?r) = trace ?s @
      loop_calls frames w (glCreateProgram_ret e) (glGenVertexArrays_out e ''RECT_VAO'')"
    by (rule render_loop_registered [OF scene_registered scene_open])
  show ?thesis
    by (simp add: m f t call_def)
qed

section \<open>What a resize does over a whole run\<close>

lemma viewport_in_viewports:
  "GlViewport x y a b \<in> set (viewports evs) \<longleftrightarrow>
     x = 0 \<and> y = 0 \<and> FramebufferResized a b \<in> set evs"
  by (induction evs rule: viewports.induct) auto

lemma viewport_in_pass_events:
  "GlViewport x y a b \<notin> set (pass_events f w p v)"
  by (simp add: pass_events_def)

lemma viewport_in_loop_calls:
  "GlViewport x y a b \<in> set (loop_calls fs w p v) \<Longrightarrow>
     x = 0 \<and> y = 0 \<and> (\<exists>f\<in>set fs. FramebufferResized a b \<in> set (os_events f))"
proof (induction fs)
  case Nil
  then show ?case by simp
next
  case (Cons f fs)
  then show ?case
    by (auto simp: viewport_in_viewports viewport_in_pass_events split: if_splits)
qed

lemma resize_in_loop_calls:
  assumes "FramebufferResized a b \<in> set (os_events f)"
  shows "\<forall>g\<in>set pre. \<not> requests_close g \<Longrightarrow>
         GlViewport 0 0 a b \<in> set (loop_calls (pre @ f # post) w p v)"
proof (induction pre)
  case Nil
  show ?case using assms by (simp add: viewport_in_viewports)
next
  case (Cons g pre)
  then show ?case by simp
qed

lemma main_registration:
  assumes "files_read e" and "glfwCreateWindow_ret e = Some w"
  shows "framebuffer_size_fun (snd (main e frames)) = Some Framebuffer_size_callback"
    and "GlfwSetFramebufferSizeCallback w Framebuffer_size_callback
           \<in> set (trace (snd (main e frames)))"
proof -
  have "framebuffer_size_fun (snd (main e frames)) = Some Framebuffer_size_callback
      \<and> GlfwSetFramebufferSizeCallback w Framebuffer_size_callback
           \<in> set (trace (snd (main e frames)))"
  proof (cases "gladLoadGLLoader_ret e = 0")
    case True
    with main_no_loader [OF assms True, of frames] show ?thesis
      by (simp add: started_def init_state_def)
  next
    case False
    from assms(1) obtain vs_code h1 fs_code h2 where r:
      "read_entire_file e ''../src/vertex_shader.glsl'' (start_heap e) = Inr (vs_code, h1)"
      "read_entire_file e ''../src/fragment_shader.glsl'' h1 = Inr (fs_code, h2)"
      by (rule files_readE)
    let ?s = "snd (snd (build_scene e vs_code fs_code (started e w)))"
    obtain evs c ww wh where m: "snd (main e frames) =
        ?s\<lparr>trace := trace ?s @ evs, should_close := c, window_width := ww,
           window_height := wh\<rparr>"
      using main_reached [OF r assms(2) False] by blast
    have "GlfwSetFramebufferSizeCallback w Framebuffer_size_callback \<in> set (trace ?s)"
      by (simp add: build_scene_state Let_def started_def init_state_def)
    then show ?thesis
      by (simp add: m scene_quiet(4))
  qed
  then show "framebuffer_size_fun (snd (main e frames)) = Some Framebuffer_size_callback"
    and "GlfwSetFramebufferSizeCallback w Framebuffer_size_callback
           \<in> set (trace (snd (main e frames)))"
    by simp_all
qed

lemma scene_no_viewport:
  "GlViewport x y a b \<notin> set (trace (snd (snd (build_scene e vs_code fs_code (started e w)))))"
  by (simp add: build_scene_state Let_def started_def init_state_def)

lemma main_resize_reaches:
  assumes "files_read e" and "glfwCreateWindow_ret e = Some w" and "gladLoadGLLoader_ret e \<noteq> 0"
    and "frames = pre @ f # post" and "\<forall>g\<in>set pre. \<not> requests_close g"
    and "FramebufferResized width height \<in> set (os_events f)"
  shows "GlViewport 0 0 width height \<in> set (trace (snd (main e frames)))"
proof -
  from assms(1) obtain vs_code h1 fs_code h2 where r:
    "read_entire_file e ''../src/vertex_shader.glsl'' (start_heap e) = Inr (vs_code, h1)"
    "read_entire_file e ''../src/fragment_shader.glsl'' h1 = Inr (fs_code, h2)"
    by (rule files_readE)
  have "GlViewport 0 0 width height
      \<in> set (loop_calls frames w (glCreateProgram_ret e) (glGenVertexArrays_out e ''RECT_VAO''))"
    unfolding assms(4) by (rule resize_in_loop_calls [OF assms(6) assms(5)])
  then show ?thesis
    by (simp add: main_trace [OF r assms(2,3)])
qed

lemma main_viewport_origin:
  assumes "GlViewport x y a b \<in> set (trace (snd (main e frames)))"
  shows "x = 0 \<and> y = 0 \<and> (\<exists>f\<in>set frames. FramebufferResized a b \<in> set (os_events f))"
proof (cases "files_read e")
  case False
  then obtain f where "main e frames = (Crashed f, init_state e)"
    using main_crashed by blast
  with assms show ?thesis by (simp add: init_state_def)
next
  case True
  show ?thesis
  proof (cases "glfwCreateWindow_ret e")
    case None
    with main_no_window [OF True None, of frames] assms show ?thesis by simp
  next
    case (Some w)
    show ?thesis
    proof (cases "gladLoadGLLoader_ret e = 0")
      case zero: True
      with main_no_loader [OF True Some zero, of frames] assms show ?thesis
        by (simp add: started_def init_state_def)
    next
      case False
      from True obtain vs_code h1 fs_code h2 where r:
        "read_entire_file e ''../src/vertex_shader.glsl'' (start_heap e) = Inr (vs_code, h1)"
        "read_entire_file e ''../src/fragment_shader.glsl'' h1 = Inr (fs_code, h2)"
        by (rule files_readE)
      from assms have "GlViewport x y a b
        \<in> set (loop_calls frames w (glCreateProgram_ret e) (glGenVertexArrays_out e ''RECT_VAO''))"
        by (simp add: main_trace [OF r Some False] scene_no_viewport split: if_splits)
      then show ?thesis by (rule viewport_in_loop_calls)
    qed
  qed
qed

lemma loop_body_resize:
  assumes "registered s"
  shows "trace (loop_body f w p v s) = trace s @ pass_events f w p v @ viewports (os_events f)"
    and "window_width (loop_body f w p v s) = window_width s"
    and "window_height (loop_body f w p v s) = window_height s"
proof -
  show "trace (loop_body f w p v s) = trace s @ pass_events f w p v @ viewports (os_events f)"
    by (rule loop_body_registered(1) [OF assms])
  have "quiet s" using assms by (simp add: registered_def quiet_def)
  from loop_body_globals [OF this, of f w p v]
  show "window_width (loop_body f w p v s) = window_width s"
    and "window_height (loop_body f w p v s) = window_height s"
    by simp_all
qed

text \<open>
  C8, amended. In every run, \<^verbatim>\<open>window_width\<close> and \<^verbatim>\<open>window_height\<close> end at 1280 and 720,
  whatever resize events were delivered, and no window-size callback is ever set. In
  every run in which the files are read and the window is created, line 72 is reached:
  \<^verbatim>\<open>glfwSetFramebufferSizeCallback\<close> is called and the framebuffer-size callback of the
  window is \<^verbatim>\<open>framebuffer_size_callback\<close> from then to the end. In a run that reaches the
  loop, every change of the framebuffer's size to \<open>width\<close> by \<open>height\<close> delivered in a pass
  the loop makes (no earlier pass asked to close) gives the call
  \<^verbatim>\<open>glViewport(0, 0, width, height)\<close>, and every \<^verbatim>\<open>glViewport\<close> call of a run is of that
  form, for a size some frame delivered. With the callbacks as line 72 leaves them, a
  pass makes its own calls and then exactly one \<^verbatim>\<open>glViewport\<close> per framebuffer-size event
  of its poll, and leaves the globals as they were; a single framebuffer-size event only
  appends that call, and a window-size event does nothing.
\<close>

theorem resize_sets_viewport_only:
  "window_width (snd (main e frames)) = 1280 \<and> window_height (snd (main e frames)) = 720
   \<and> window_size_fun (snd (main e frames)) = None
   \<and> (framebuffer_size_fun (snd (main e frames)) = None
      \<or> framebuffer_size_fun (snd (main e frames)) = Some Framebuffer_size_callback)
   \<and> (files_read e \<and> glfwCreateWindow_ret e = Some w \<longrightarrow>
        framebuffer_size_fun (snd (main e frames)) = Some Framebuffer_size_callback
        \<and> GlfwSetFramebufferSizeCallback w Framebuffer_size_callback
             \<in> set (trace (snd (main e frames))))
   \<and> (files_read e \<and> glfwCreateWindow_ret e = Some w \<and> gladLoadGLLoader_ret e \<noteq> 0
        \<and> frames = pre @ f # post \<and> (\<forall>g\<in>set pre. \<not> requests_close g)
        \<and> FramebufferResized width height \<in> set (os_events f) \<longrightarrow>
        GlViewport 0 0 width height \<in> set (trace (snd (main e frames))))
   \<and> (GlViewport x y a b \<in> set (trace (snd (main e frames))) \<longrightarrow>
        x = 0 \<and> y = 0 \<and> (\<exists>g\<in>set frames. FramebufferResized a b \<in> set (os_events g)))
   \<and> (registered s \<longrightarrow>
        trace (loop_body f w p v s) = trace s @ pass_events f w p v @ viewports (os_events f)
        \<and> window_width (loop_body f w p v s) = window_width s
        \<and> window_height (loop_body f w p v s) = window_height s)
   \<and> (framebuffer_size_fun s = Some Framebuffer_size_callback \<and> window_size_fun s = None \<longrightarrow>
        deliver (FramebufferResized width height) s
          = s\<lparr>trace := trace s @ [GlViewport 0 0 width height]\<rparr>
        \<and> deliver (WindowResized width height) s = s)"
proof -
  note g = main_globals [of e frames]
  have reg: "framebuffer_size_fun (snd (main e frames)) = Some Framebuffer_size_callback
        \<and> GlfwSetFramebufferSizeCallback w Framebuffer_size_callback
             \<in> set (trace (snd (main e frames)))"
    if "files_read e" "glfwCreateWindow_ret e = Some w"
    using main_registration [OF that] by simp
  have reach: "GlViewport 0 0 width height \<in> set (trace (snd (main e frames)))"
    if "files_read e" "glfwCreateWindow_ret e = Some w" "gladLoadGLLoader_ret e \<noteq> 0"
      "frames = pre @ f # post" "\<forall>g\<in>set pre. \<not> requests_close g"
      "FramebufferResized width height \<in> set (os_events f)"
    using that by (rule main_resize_reaches)
  have origin: "x = 0 \<and> y = 0 \<and> (\<exists>g\<in>set frames. FramebufferResized a b \<in> set (os_events g))"
    if "GlViewport x y a b \<in> set (trace (snd (main e frames)))"
    using that by (rule main_viewport_origin)
  have pass: "trace (loop_body f w p v s) = trace s @ pass_events f w p v @ viewports (os_events f)
        \<and> window_width (loop_body f w p v s) = window_width s
        \<and> window_height (loop_body f w p v s) = window_height s"
    if "registered s"
    using loop_body_resize [OF that] by simp
  have one: "deliver (FramebufferResized width height) s
          = s\<lparr>trace := trace s @ [GlViewport 0 0 width height]\<rparr>
        \<and> deliver (WindowResized width height) s = s"
    if "framebuffer_size_fun s = Some Framebuffer_size_callback" "window_size_fun s = None"
    using deliver_resize [OF that] by simp
  from g reg reach origin pass one show ?thesis by blast
qed

theorem resize_sets_viewport_only_witness:
  "files_read env0 \<and> glfwCreateWindow_ret env0 = Some 64 \<and> gladLoadGLLoader_ret env0 = 1
   \<and> frames0 = [] @ resize_frame # [escape_frame]
   \<and> FramebufferResized 800 600 \<in> set (os_events resize_frame)
   \<and> framebuffer_size_fun (snd (main env0 frames0)) = Some Framebuffer_size_callback
   \<and> GlfwSetFramebufferSizeCallback 64 Framebuffer_size_callback
        \<in> set (trace (snd (main env0 frames0)))
   \<and> GlViewport 0 0 800 600 \<in> set (trace (snd (main env0 frames0)))
   \<and> (\<exists>g\<in>set frames0. FramebufferResized 800 600 \<in> set (os_events g))
   \<and> window_width (snd (main env0 frames0)) = 1280
   \<and> window_height (snd (main env0 frames0)) = 720
   \<and> window_size_fun (snd (main env0 frames0)) = None
   \<and> registered (snd (main env0 frames0))
   \<and> trace (loop_body resize_frame 64 3 2 (snd (main env0 frames0)))
       = trace (snd (main env0 frames0)) @ pass_events resize_frame 64 3 2
           @ [GlViewport 0 0 800 600]
   \<and> window_width (loop_body resize_frame 64 3 2 (snd (main env0 frames0))) = 1280
   \<and> window_height (loop_body resize_frame 64 3 2 (snd (main env0 frames0))) = 720
   \<and> deliver (FramebufferResized 800 600) (snd (main env0 frames0))
       = (snd (main env0 frames0))
           \<lparr>trace := trace (snd (main env0 frames0)) @ [GlViewport 0 0 800 600]\<rparr>
   \<and> deliver (WindowResized 800 600) (snd (main env0 frames0)) = snd (main env0 frames0)"
proof -
  have h: "files_read env0" "glfwCreateWindow_ret env0 = Some 64" "gladLoadGLLoader_ret env0 = 1"
    "frames0 = [] @ resize_frame # [escape_frame]"
    "FramebufferResized 800 600 \<in> set (os_events resize_frame)"
    using files_read_env0(1) by (simp_all add: env0_def frames0_def resize_frame_def)
  have n: "gladLoadGLLoader_ret env0 \<noteq> 0" "\<forall>g\<in>set []. \<not> requests_close g"
    using h(3) by simp_all
  have vs: "viewports (os_events resize_frame) = [GlViewport 0 0 800 600]"
    by (simp add: resize_frame_def)
  note t = resize_sets_viewport_only [where e = env0 and frames = frames0 and w = 64
      and pre = "[]" and f = resize_frame and post = "[escape_frame]" and width = 800
      and height = 600 and s = "snd (main env0 frames0)" and x = 0 and y = 0 and a = 800
      and b = 600 and p = 3 and v = 2]
  from t have g: "window_width (snd (main env0 frames0)) = 1280"
    "window_height (snd (main env0 frames0)) = 720"
    "window_size_fun (snd (main env0 frames0)) = None"
    by blast+
  from t h(1,2) have r: "framebuffer_size_fun (snd (main env0 frames0))
      = Some Framebuffer_size_callback"
    "GlfwSetFramebufferSizeCallback 64 Framebuffer_size_callback
        \<in> set (trace (snd (main env0 frames0)))"
    by blast+
  from t h(1,2,4,5) n have v: "GlViewport 0 0 800 600 \<in> set (trace (snd (main env0 frames0)))"
    by blast
  from t v have o: "\<exists>g\<in>set frames0. FramebufferResized 800 600 \<in> set (os_events g)"
    by blast
  have reg: "registered (snd (main env0 frames0))"
    using r(1) g(3) by (simp add: registered_def)
  from t reg have b: "trace (loop_body resize_frame 64 3 2 (snd (main env0 frames0)))
       = trace (snd (main env0 frames0)) @ pass_events resize_frame 64 3 2
           @ viewports (os_events resize_frame)"
    "window_width (loop_body resize_frame 64 3 2 (snd (main env0 frames0)))
       = window_width (snd (main env0 frames0))"
    "window_height (loop_body resize_frame 64 3 2 (snd (main env0 frames0)))
       = window_height (snd (main env0 frames0))"
    by blast+
  have b': "trace (loop_body resize_frame 64 3 2 (snd (main env0 frames0)))
       = trace (snd (main env0 frames0)) @ pass_events resize_frame 64 3 2
           @ [GlViewport 0 0 800 600]"
    "window_width (loop_body resize_frame 64 3 2 (snd (main env0 frames0))) = 1280"
    "window_height (loop_body resize_frame 64 3 2 (snd (main env0 frames0))) = 720"
    using b(1) [unfolded vs] b(2,3) g(1,2) by simp_all
  from t r(1) g(3) have d: "deliver (FramebufferResized 800 600) (snd (main env0 frames0))
       = (snd (main env0 frames0))
           \<lparr>trace := trace (snd (main env0 frames0)) @ [GlViewport 0 0 800 600]\<rparr>"
    "deliver (WindowResized 800 600) (snd (main env0 frames0)) = snd (main env0 frames0)"
    by blast+
  from h g r v o reg b' d show ?thesis by (intro conjI)
qed

text \<open>The claim as the specification states it (the callback updates the globals) fails
  on the concrete run: a resize to 800 by 600 is delivered in the first pass, the callback
  sets the viewport, and the globals stay at 1280 and 720.\<close>

theorem resize_updates_globals_counterexample:
  "frames0 = [resize_frame, escape_frame]
   \<and> os_events resize_frame = [WindowResized 800 600, FramebufferResized 800 600]
   \<and> fst (main env0 frames0) = Returned 0
   \<and> GlViewport 0 0 800 600 \<in> set (trace (snd (main env0 frames0)))
   \<and> window_width (snd (main env0 frames0)) = 1280
   \<and> window_height (snd (main env0 frames0)) = 720
   \<and> window_width (snd (main env0 frames0)) \<noteq> 800
   \<and> window_height (snd (main env0 frames0)) \<noteq> 600"
  by (simp add: main_env0) (simp add: frames0_def resize_frame_def)

section \<open>Which array is uploaded to, and which is drawn\<close>

lemma geometry_uses_filter:
  "geometry_uses a b (filter geometry_call evs) = geometry_uses a b evs"
proof (induction evs arbitrary: a b)
  case Nil
  show ?case by simp
next
  case (Cons ev evs)
  show ?case by (cases ev) (simp_all add: Cons.IH fun_upd_def)
qed

lemma geometry_uses_passes:
  "geometry_uses a b
     (concat (replicate n [GlBindVertexArray r, GlDrawElements m c t off, GlBindVertexArray 0]))
   = replicate n (Draw r c)"
  by (induction n arbitrary: a) simp_all

lemma viewports_no_geometry:
  "filter geometry_call (viewports evs) = []"
  by (induction evs rule: viewports.induct) simp_all

lemma pass_events_geometry:
  "filter geometry_call (pass_events f w p v) =
     [GlBindVertexArray v, GlDrawElements GL_TRIANGLES 6 GL_UNSIGNED_INT 0, GlBindVertexArray 0]"
  by (simp add: pass_events_def)

lemma loop_calls_geometry:
  "filter geometry_call (loop_calls fs w p v) =
     concat (replicate (passes fs)
       [GlBindVertexArray v, GlDrawElements GL_TRIANGLES 6 GL_UNSIGNED_INT 0,
        GlBindVertexArray 0])"
  by (induction fs) (simp_all add: pass_events_geometry viewports_no_geometry)

lemma scene_geometry_calls:
  "filter geometry_call (trace (snd (snd (build_scene e vs_code fs_code (started e w))))) =
     [GlGenVertexArrays 1, GlGenBuffers 1,
      GlBindVertexArray (glGenVertexArrays_out e ''VAO''),
      GlBindBuffer GL_ARRAY_BUFFER (glGenBuffers_out e ''VBO''),
      GlBufferData GL_ARRAY_BUFFER 36 (Floats vertices) GL_STATIC_DRAW,
      GlVertexAttribPointer 0 3 GL_FLOAT GL_FALSE 12 0,
      GlEnableVertexAttribArray 0,
      GlGenVertexArrays 1, GlGenBuffers 1,
      GlBindVertexArray (glGenVertexArrays_out e ''RECT_VAO''),
      GlBindBuffer GL_ARRAY_BUFFER (glGenBuffers_out e ''RECT_VBO''),
      GlBufferData GL_ARRAY_BUFFER 48 (Floats rect_vertices) GL_STATIC_DRAW,
      GlGenBuffers 1,
      GlBindBuffer GL_ELEMENT_ARRAY_BUFFER (glGenBuffers_out e ''EBO''),
      GlBufferData GL_ELEMENT_ARRAY_BUFFER 24 (UInts indices) GL_STATIC_DRAW,
      GlVertexAttribPointer 0 3 GL_FLOAT GL_FALSE 12 0,
      GlEnableVertexAttribArray 0]"
  by (simp add: build_scene_state Let_def started_def init_state_def)

lemma main_geometry_calls:
  assumes "files_read e" and "glfwCreateWindow_ret e = Some w" and "gladLoadGLLoader_ret e \<noteq> 0"
  shows "filter geometry_call (trace (snd (main e frames))) =
     [GlGenVertexArrays 1, GlGenBuffers 1,
      GlBindVertexArray (glGenVertexArrays_out e ''VAO''),
      GlBindBuffer GL_ARRAY_BUFFER (glGenBuffers_out e ''VBO''),
      GlBufferData GL_ARRAY_BUFFER 36 (Floats vertices) GL_STATIC_DRAW,
      GlVertexAttribPointer 0 3 GL_FLOAT GL_FALSE 12 0,
      GlEnableVertexAttribArray 0,
      GlGenVertexArrays 1, GlGenBuffers 1,
      GlBindVertexArray (glGenVertexArrays_out e ''RECT_VAO''),
      GlBindBuffer GL_ARRAY_BUFFER (glGenBuffers_out e ''RECT_VBO''),
      GlBufferData GL_ARRAY_BUFFER 48 (Floats rect_vertices) GL_STATIC_DRAW,
      GlGenBuffers 1,
      GlBindBuffer GL_ELEMENT_ARRAY_BUFFER (glGenBuffers_out e ''EBO''),
      GlBufferData GL_ELEMENT_ARRAY_BUFFER 24 (UInts indices) GL_STATIC_DRAW,
      GlVertexAttribPointer 0 3 GL_FLOAT GL_FALSE 12 0,
      GlEnableVertexAttribArray 0] @
     concat (replicate (passes frames)
       [GlBindVertexArray (glGenVertexArrays_out e ''RECT_VAO''),
        GlDrawElements GL_TRIANGLES 6 GL_UNSIGNED_INT 0,
        GlBindVertexArray 0])"
proof -
  from assms(1) obtain vs_code h1 fs_code h2 where r:
    "read_entire_file e ''../src/vertex_shader.glsl'' (start_heap e) = Inr (vs_code, h1)"
    "read_entire_file e ''../src/fragment_shader.glsl'' h1 = Inr (fs_code, h2)"
    by (rule files_readE)
  show ?thesis
    by (simp only: main_trace [OF r assms(2,3)] filter_append scene_geometry_calls
        loop_calls_geometry)
      simp
qed

lemma main_geometry_uses:
  assumes "files_read e" and "glfwCreateWindow_ret e = Some w" and "gladLoadGLLoader_ret e \<noteq> 0"
  shows "geometry_uses 0 (\<lambda>target. 0) (trace (snd (main e frames))) =
     [Upload (glGenVertexArrays_out e ''VAO'') (glGenBuffers_out e ''VBO'') (Floats vertices),
      Upload (glGenVertexArrays_out e ''RECT_VAO'') (glGenBuffers_out e ''RECT_VBO'')
        (Floats rect_vertices),
      Upload (glGenVertexArrays_out e ''RECT_VAO'') (glGenBuffers_out e ''EBO'')
        (UInts indices)] @
     replicate (passes frames) (Draw (glGenVertexArrays_out e ''RECT_VAO'') 6)"
proof -
  have "geometry_uses 0 (\<lambda>target. 0) (trace (snd (main e frames)))
      = geometry_uses 0 (\<lambda>target. 0) (filter geometry_call (trace (snd (main e frames))))"
    by (simp only: geometry_uses_filter)
  also have "\<dots> =
     [Upload (glGenVertexArrays_out e ''VAO'') (glGenBuffers_out e ''VBO'') (Floats vertices),
      Upload (glGenVertexArrays_out e ''RECT_VAO'') (glGenBuffers_out e ''RECT_VBO'')
        (Floats rect_vertices),
      Upload (glGenVertexArrays_out e ''RECT_VAO'') (glGenBuffers_out e ''EBO'')
        (UInts indices)] @
     replicate (passes frames) (Draw (glGenVertexArrays_out e ''RECT_VAO'') 6)"
    by (simp only: main_geometry_calls [OF assms]) (simp add: geometry_uses_passes)
  finally show ?thesis .
qed

lemma viewports_no_swap:
  "count_list (viewports evs) (GlfwSwapBuffers w) = 0"
  by (induction evs rule: viewports.induct) simp_all

lemma loop_calls_swaps:
  "count_list (loop_calls fs w p v) (GlfwSwapBuffers w) = passes fs"
  by (induction fs) (simp_all add: pass_events_def viewports_no_swap)

lemma main_swaps:
  assumes "files_read e" and "glfwCreateWindow_ret e = Some w" and "gladLoadGLLoader_ret e \<noteq> 0"
  shows "count_list (trace (snd (main e frames))) (GlfwSwapBuffers w) = passes frames"
proof -
  from assms(1) obtain vs_code h1 fs_code h2 where r:
    "read_entire_file e ''../src/vertex_shader.glsl'' (start_heap e) = Inr (vs_code, h1)"
    "read_entire_file e ''../src/fragment_shader.glsl'' h1 = Inr (fs_code, h2)"
    by (rule files_readE)
  show ?thesis
    by (simp add: main_trace [OF r assms(2,3)] scene_no_pass loop_calls_swaps)
qed

text \<open>
  C9, amended. The program creates two vertex arrays and three buffers, for two pieces
  of static geometry. In every run that reaches the loop, the calls that name, bind,
  fill, describe or draw a vertex array or a buffer are exactly: the seventeen calls of
  lines 144 to 187, in order, then for each pass of the loop the binding of \<^verbatim>\<open>RECT_VAO\<close>,
  one \<^verbatim>\<open>glDrawElements\<close> of 6 indices and the binding of 0. Read with the bindings in
  force: the triangle (3 vertices of 3 floats) is uploaded to \<^verbatim>\<open>VBO\<close> while \<^verbatim>\<open>VAO\<close> is
  bound; the rectangle (4 vertices of 3 floats) to \<^verbatim>\<open>RECT_VBO\<close> and its 6 indices (2
  triangles) to \<^verbatim>\<open>EBO\<close> while \<^verbatim>\<open>RECT_VAO\<close> is bound; every draw happens while \<^verbatim>\<open>RECT_VAO\<close>
  is bound, once per pass (the passes are the \<^verbatim>\<open>glfwSwapBuffers\<close> calls), and none while
  \<^verbatim>\<open>VAO\<close> is bound when the driver gave the two arrays different names. The calls that
  create or change an array or a buffer are the fifteen of the set-up, whatever the
  number of passes; the loop makes none.
\<close>

theorem geometry_fixed_before_loop:
  "(files_read e \<and> glfwCreateWindow_ret e = Some w \<and> gladLoadGLLoader_ret e \<noteq> 0 \<longrightarrow>
      filter geometry_call (trace (snd (main e frames))) =
        [GlGenVertexArrays 1, GlGenBuffers 1,
         GlBindVertexArray (glGenVertexArrays_out e ''VAO''),
         GlBindBuffer GL_ARRAY_BUFFER (glGenBuffers_out e ''VBO''),
         GlBufferData GL_ARRAY_BUFFER 36 (Floats vertices) GL_STATIC_DRAW,
         GlVertexAttribPointer 0 3 GL_FLOAT GL_FALSE 12 0,
         GlEnableVertexAttribArray 0,
         GlGenVertexArrays 1, GlGenBuffers 1,
         GlBindVertexArray (glGenVertexArrays_out e ''RECT_VAO''),
         GlBindBuffer GL_ARRAY_BUFFER (glGenBuffers_out e ''RECT_VBO''),
         GlBufferData GL_ARRAY_BUFFER 48 (Floats rect_vertices) GL_STATIC_DRAW,
         GlGenBuffers 1,
         GlBindBuffer GL_ELEMENT_ARRAY_BUFFER (glGenBuffers_out e ''EBO''),
         GlBufferData GL_ELEMENT_ARRAY_BUFFER 24 (UInts indices) GL_STATIC_DRAW,
         GlVertexAttribPointer 0 3 GL_FLOAT GL_FALSE 12 0,
         GlEnableVertexAttribArray 0] @
        concat (replicate (passes frames)
          [GlBindVertexArray (glGenVertexArrays_out e ''RECT_VAO''),
           GlDrawElements GL_TRIANGLES 6 GL_UNSIGNED_INT 0,
           GlBindVertexArray 0])
      \<and> geometry_uses 0 (\<lambda>target. 0) (trace (snd (main e frames))) =
        [Upload (glGenVertexArrays_out e ''VAO'') (glGenBuffers_out e ''VBO'') (Floats vertices),
         Upload (glGenVertexArrays_out e ''RECT_VAO'') (glGenBuffers_out e ''RECT_VBO'')
           (Floats rect_vertices),
         Upload (glGenVertexArrays_out e ''RECT_VAO'') (glGenBuffers_out e ''EBO'')
           (UInts indices)] @
        replicate (passes frames) (Draw (glGenVertexArrays_out e ''RECT_VAO'') 6)
      \<and> (glGenVertexArrays_out e ''VAO'' \<noteq> glGenVertexArrays_out e ''RECT_VAO'' \<longrightarrow>
           Draw (glGenVertexArrays_out e ''VAO'') n
             \<notin> set (geometry_uses 0 (\<lambda>target. 0) (trace (snd (main e frames)))))
      \<and> count_list (trace (snd (main e frames))) (GlfwSwapBuffers w) = passes frames
      \<and> filter changes_geometry (trace (snd (main e frames))) =
        [GlGenVertexArrays 1, GlGenBuffers 1,
         GlBindBuffer GL_ARRAY_BUFFER (glGenBuffers_out e ''VBO''),
         GlBufferData GL_ARRAY_BUFFER 36 (Floats vertices) GL_STATIC_DRAW,
         GlVertexAttribPointer 0 3 GL_FLOAT GL_FALSE 12 0,
         GlEnableVertexAttribArray 0,
         GlGenVertexArrays 1, GlGenBuffers 1,
         GlBindBuffer GL_ARRAY_BUFFER (glGenBuffers_out e ''RECT_VBO''),
         GlBufferData GL_ARRAY_BUFFER 48 (Floats rect_vertices) GL_STATIC_DRAW,
         GlGenBuffers 1,
         GlBindBuffer GL_ELEMENT_ARRAY_BUFFER (glGenBuffers_out e ''EBO''),
         GlBufferData GL_ELEMENT_ARRAY_BUFFER 24 (UInts indices) GL_STATIC_DRAW,
         GlVertexAttribPointer 0 3 GL_FLOAT GL_FALSE 12 0,
         GlEnableVertexAttribArray 0])
   \<and> filter changes_geometry (trace (snd (render_loop fs w p v s)))
       = filter changes_geometry (trace s)
   \<and> length vertices = 3 * 3 \<and> length rect_vertices = 4 * 3 \<and> length indices = 2 * 3"
proof -
  have lens: "length vertices = 3 * 3" "length rect_vertices = 4 * 3" "length indices = 2 * 3"
    by (simp_all add: vertices_def rect_vertices_def indices_def)
  note loop = render_loop_geometry [of fs w p v s]
  show ?thesis
  proof (cases "files_read e \<and> glfwCreateWindow_ret e = Some w \<and> gladLoadGLLoader_ret e \<noteq> 0")
    case False
    with lens loop show ?thesis by blast
  next
    case True
    then have h: "files_read e" "glfwCreateWindow_ret e = Some w" "gladLoadGLLoader_ret e \<noteq> 0"
      by simp_all
    note calls = main_geometry_calls [OF h, of frames]
    note uses = main_geometry_uses [OF h, of frames]
    note swaps = main_swaps [OF h, of frames]
    note changes = main_geometry [OF h, of frames]
    have undrawn: "Draw (glGenVertexArrays_out e ''VAO'') n
             \<notin> set (geometry_uses 0 (\<lambda>target. 0) (trace (snd (main e frames))))"
      if "glGenVertexArrays_out e ''VAO'' \<noteq> glGenVertexArrays_out e ''RECT_VAO''"
      using that by (simp add: uses)
    from calls uses undrawn swaps changes loop lens show ?thesis
      by (intro conjI impI) assumption+
  qed
qed

theorem geometry_fixed_before_loop_witness:
  "files_read env0 \<and> glfwCreateWindow_ret env0 = Some 64 \<and> gladLoadGLLoader_ret env0 = 1
   \<and> glGenVertexArrays_out env0 ''VAO'' = 1 \<and> glGenVertexArrays_out env0 ''RECT_VAO'' = 2
   \<and> passes frames0 = 2
   \<and> filter geometry_call (trace (snd (main env0 frames0))) =
     [GlGenVertexArrays 1, GlGenBuffers 1,
      GlBindVertexArray 1,
      GlBindBuffer GL_ARRAY_BUFFER 1,
      GlBufferData GL_ARRAY_BUFFER 36 (Floats vertices) GL_STATIC_DRAW,
      GlVertexAttribPointer 0 3 GL_FLOAT GL_FALSE 12 0,
      GlEnableVertexAttribArray 0,
      GlGenVertexArrays 1, GlGenBuffers 1,
      GlBindVertexArray 2,
      GlBindBuffer GL_ARRAY_BUFFER 2,
      GlBufferData GL_ARRAY_BUFFER 48 (Floats rect_vertices) GL_STATIC_DRAW,
      GlGenBuffers 1,
      GlBindBuffer GL_ELEMENT_ARRAY_BUFFER 3,
      GlBufferData GL_ELEMENT_ARRAY_BUFFER 24 (UInts indices) GL_STATIC_DRAW,
      GlVertexAttribPointer 0 3 GL_FLOAT GL_FALSE 12 0,
      GlEnableVertexAttribArray 0,
      GlBindVertexArray 2, GlDrawElements GL_TRIANGLES 6 GL_UNSIGNED_INT 0, GlBindVertexArray 0,
      GlBindVertexArray 2, GlDrawElements GL_TRIANGLES 6 GL_UNSIGNED_INT 0, GlBindVertexArray 0]
   \<and> geometry_uses 0 (\<lambda>target. 0) (trace (snd (main env0 frames0))) =
     [Upload 1 1 (Floats vertices), Upload 2 2 (Floats rect_vertices), Upload 2 3 (UInts indices),
      Draw 2 6, Draw 2 6]
   \<and> Draw 1 6 \<notin> set (geometry_uses 0 (\<lambda>target. 0) (trace (snd (main env0 frames0))))
   \<and> count_list (trace (snd (main env0 frames0))) (GlfwSwapBuffers 64) = 2
   \<and> filter changes_geometry (trace (snd (main env0 frames0))) =
     [GlGenVertexArrays 1, GlGenBuffers 1,
      GlBindBuffer GL_ARRAY_BUFFER 1,
      GlBufferData GL_ARRAY_BUFFER 36 (Floats vertices) GL_STATIC_DRAW,
      GlVertexAttribPointer 0 3 GL_FLOAT GL_FALSE 12 0,
      GlEnableVertexAttribArray 0,
      GlGenVertexArrays 1, GlGenBuffers 1,
      GlBindBuffer GL_ARRAY_BUFFER 2,
      GlBufferData GL_ARRAY_BUFFER 48 (Floats rect_vertices) GL_STATIC_DRAW,
      GlGenBuffers 1,
      GlBindBuffer GL_ELEMENT_ARRAY_BUFFER 3,
      GlBufferData GL_ELEMENT_ARRAY_BUFFER 24 (UInts indices) GL_STATIC_DRAW,
      GlVertexAttribPointer 0 3 GL_FLOAT GL_FALSE 12 0,
      GlEnableVertexAttribArray 0]"
proof -
  have h: "files_read env0" "glfwCreateWindow_ret env0 = Some 64" "gladLoadGLLoader_ret env0 = 1"
    "glGenVertexArrays_out env0 ''VAO'' = 1" "glGenVertexArrays_out env0 ''RECT_VAO'' = 2"
    "glGenBuffers_out env0 ''VBO'' = 1" "glGenBuffers_out env0 ''RECT_VBO'' = 2"
    "glGenBuffers_out env0 ''EBO'' = 3"
    using files_read_env0(1) by (simp_all add: env0_def)
  have p: "passes frames0 = 2"
    by (simp add: frames0_def requests_close_def escape_frame_def resize_frame_def
        GLFW_PRESS_def GLFW_RELEASE_def)
  have r: "files_read env0 \<and> glfwCreateWindow_ret env0 = Some 64 \<and> gladLoadGLLoader_ret env0 \<noteq> 0"
    using h(1-3) by simp
  have d: "glGenVertexArrays_out env0 ''VAO'' \<noteq> glGenVertexArrays_out env0 ''RECT_VAO''"
    using h(4,5) by simp
  note t = geometry_fixed_before_loop [where e = env0 and w = 64 and frames = frames0 and n = 6,
      THEN conjunct1, rule_format, OF r]
  from t have calls: "filter geometry_call (trace (snd (main env0 frames0))) =
     [GlGenVertexArrays 1, GlGenBuffers 1,
      GlBindVertexArray 1,
      GlBindBuffer GL_ARRAY_BUFFER 1,
      GlBufferData GL_ARRAY_BUFFER 36 (Floats vertices) GL_STATIC_DRAW,
      GlVertexAttribPointer 0 3 GL_FLOAT GL_FALSE 12 0,
      GlEnableVertexAttribArray 0,
      GlGenVertexArrays 1, GlGenBuffers 1,
      GlBindVertexArray 2,
      GlBindBuffer GL_ARRAY_BUFFER 2,
      GlBufferData GL_ARRAY_BUFFER 48 (Floats rect_vertices) GL_STATIC_DRAW,
      GlGenBuffers 1,
      GlBindBuffer GL_ELEMENT_ARRAY_BUFFER 3,
      GlBufferData GL_ELEMENT_ARRAY_BUFFER 24 (UInts indices) GL_STATIC_DRAW,
      GlVertexAttribPointer 0 3 GL_FLOAT GL_FALSE 12 0,
      GlEnableVertexAttribArray 0,
      GlBindVertexArray 2, GlDrawElements GL_TRIANGLES 6 GL_UNSIGNED_INT 0, GlBindVertexArray 0,
      GlBindVertexArray 2, GlDrawElements GL_TRIANGLES 6 GL_UNSIGNED_INT 0, GlBindVertexArray 0]"
    by (simp add: h p eval_nat_numeral)
  from t have uses: "geometry_uses 0 (\<lambda>target. 0) (trace (snd (main env0 frames0))) =
     [Upload 1 1 (Floats vertices), Upload 2 2 (Floats rect_vertices), Upload 2 3 (UInts indices),
      Draw 2 6, Draw 2 6]"
    by (simp add: h p eval_nat_numeral)
  from t d have undrawn: "Draw 1 6
      \<notin> set (geometry_uses 0 (\<lambda>target. 0) (trace (snd (main env0 frames0))))"
    by (simp add: h)
  from t have swaps: "count_list (trace (snd (main env0 frames0))) (GlfwSwapBuffers 64) = 2"
    by (simp add: p)
  from t have changes: "filter changes_geometry (trace (snd (main env0 frames0))) =
     [GlGenVertexArrays 1, GlGenBuffers 1,
      GlBindBuffer GL_ARRAY_BUFFER 1,
      GlBufferData GL_ARRAY_BUFFER 36 (Floats vertices) GL_STATIC_DRAW,
      GlVertexAttribPointer 0 3 GL_FLOAT GL_FALSE 12 0,
      GlEnableVertexAttribArray 0,
      GlGenVertexArrays 1, GlGenBuffers 1,
      GlBindBuffer GL_ARRAY_BUFFER 2,
      GlBufferData GL_ARRAY_BUFFER 48 (Floats rect_vertices) GL_STATIC_DRAW,
      GlGenBuffers 1,
      GlBindBuffer GL_ELEMENT_ARRAY_BUFFER 3,
      GlBufferData GL_ELEMENT_ARRAY_BUFFER 24 (UInts indices) GL_STATIC_DRAW,
      GlVertexAttribPointer 0 3 GL_FLOAT GL_FALSE 12 0,
      GlEnableVertexAttribArray 0]"
    by (simp add: h)
  from h(1-5) p calls uses undrawn swaps changes show ?thesis
    by (intro conjI)
qed

text \<open>The claim as the specification states it (one piece of geometry, 4 vertices and 6
  indices) fails on the concrete run: three uploads, the first one the triangle of 9
  floats, from two vertex arrays and three buffers.\<close>

theorem one_geometry_counterexample:
  "filter is_upload (trace (snd (main env0 frames0))) =
     [GlBufferData GL_ARRAY_BUFFER 36 (Floats vertices) GL_STATIC_DRAW,
      GlBufferData GL_ARRAY_BUFFER 48 (Floats rect_vertices) GL_STATIC_DRAW,
      GlBufferData GL_ELEMENT_ARRAY_BUFFER 24 (UInts indices) GL_STATIC_DRAW]
   \<and> length vertices = 3 * 3
   \<and> count_list (trace (snd (main env0 frames0))) (GlGenVertexArrays 1) = 2
   \<and> count_list (trace (snd (main env0 frames0))) (GlGenBuffers 1) = 3
   \<and> filter is_upload (trace (snd (main env0 frames0))) \<noteq>
     [GlBufferData GL_ARRAY_BUFFER 48 (Floats rect_vertices) GL_STATIC_DRAW,
      GlBufferData GL_ELEMENT_ARRAY_BUFFER 24 (UInts indices) GL_STATIC_DRAW]"
  by (simp add: main_env0 vertices_def)

section \<open>The link check\<close>

lemma scene_link_check:
  "GlGetProgramiv p pname \<in> set (trace (snd (snd (build_scene e vs_code fs_code (started e w)))))
     \<longleftrightarrow> p = glCreateProgram_ret e \<and> pname = GL_COMPILE_STATUS"
  by (auto simp: build_scene_state Let_def started_def init_state_def)

lemma scene_program_log:
  "Printf ''ERROR::SHADER::PROGRAM::COMPILATION_FAILED\<newline>%s\<newline>'' [l]
     \<in> set (trace (snd (snd (build_scene e vs_code fs_code (started e w)))))
   \<longleftrightarrow> sp_success (snd (snd (build_scene e vs_code fs_code (started e w)))) = 0
       \<and> l = fs_infolog (snd (snd (build_scene e vs_code fs_code (started e w))))"
  by (auto simp: build_scene_state Let_def started_def init_state_def)

lemma scene_program_log_fetched:
  "sp_success (snd (snd (build_scene e vs_code fs_code (started e w)))) = 0 \<Longrightarrow>
   GlGetProgramInfoLog (glCreateProgram_ret e) 512
     \<in> set (trace (snd (snd (build_scene e vs_code fs_code (started e w)))))"
  by (simp add: build_scene_state Let_def started_def init_state_def)

lemma scene_fs_infolog:
  "fs_infolog (snd (snd (build_scene e vs_code fs_code (started e w)))) =
     (if fs_success (snd (snd (build_scene e vs_code fs_code (started e w)))) = 0
      then out_param (glGetShaderInfoLog_out e (glCreateShader_ret e GL_FRAGMENT_SHADER) 512)
             (indeterminate_buf e ''fs_infolog'')
      else indeterminate_buf e ''fs_infolog'')"
  by (simp add: build_scene_state Let_def started_def init_state_def)

lemma main_link_check:
  "GlGetProgramiv p pname \<in> set (trace (snd (main e frames))) \<longleftrightarrow>
     files_read e \<and> glfwCreateWindow_ret e \<noteq> None \<and> gladLoadGLLoader_ret e \<noteq> 0
     \<and> p = glCreateProgram_ret e \<and> pname = GL_COMPILE_STATUS"
proof (cases "files_read e")
  case False
  then obtain f where "main e frames = (Crashed f, init_state e)"
    using main_crashed by blast
  with False show ?thesis by (simp add: init_state_def)
next
  case True
  show ?thesis
  proof (cases "glfwCreateWindow_ret e")
    case None
    with main_no_window [OF True None, of frames] show ?thesis by simp
  next
    case (Some w)
    show ?thesis
    proof (cases "gladLoadGLLoader_ret e = 0")
      case zero: True
      with main_no_loader [OF True Some zero, of frames] show ?thesis
        by (simp add: started_def init_state_def)
    next
      case False
      from True obtain vs_code h1 fs_code h2 where r:
        "read_entire_file e ''../src/vertex_shader.glsl'' (start_heap e) = Inr (vs_code, h1)"
        "read_entire_file e ''../src/fragment_shader.glsl'' h1 = Inr (fs_code, h2)"
        by (rule files_readE)
      let ?s = "snd (snd (build_scene e vs_code fs_code (started e w)))"
      obtain evs c ww wh where m: "snd (main e frames) =
          ?s\<lparr>trace := trace ?s @ evs, should_close := c, window_width := ww,
             window_height := wh\<rparr>"
        "list_all (\<lambda>ev. loop_event ev \<or> ev = GlfwTerminate) evs"
        using main_reached [OF r Some False] by blast
      have "GlGetProgramiv p pname \<notin> set evs"
        using tail_event [OF m(2), of "GlGetProgramiv p pname"] by auto
      then show ?thesis
        using True Some False by (simp add: m(1) scene_link_check)
    qed
  qed
qed

text \<open>
  C4. No run of \<^verbatim>\<open>main\<close> ever calls \<^verbatim>\<open>glGetProgramiv\<close> with \<open>GL_LINK_STATUS\<close>: the link
  status of the program is never queried. Every run that reaches the linker queries the
  program with \<open>GL_COMPILE_STATUS\<close> instead (line 128).
\<close>

theorem link_status_never_queried:
  "GlGetProgramiv p GL_LINK_STATUS \<notin> set (trace (snd (main e frames)))
   \<and> (files_read e \<and> glfwCreateWindow_ret e \<noteq> None \<and> gladLoadGLLoader_ret e \<noteq> 0 \<longrightarrow>
        GlGetProgramiv (glCreateProgram_ret e) GL_COMPILE_STATUS \<in> set (trace (snd (main e frames))))"
proof -
  have "GL_LINK_STATUS \<noteq> GL_COMPILE_STATUS"
    by simp
  then have never: "GlGetProgramiv p GL_LINK_STATUS \<notin> set (trace (snd (main e frames)))"
    by (simp add: main_link_check)
  have instead: "GlGetProgramiv (glCreateProgram_ret e) GL_COMPILE_STATUS
      \<in> set (trace (snd (main e frames)))"
    if "files_read e" "glfwCreateWindow_ret e \<noteq> None" "gladLoadGLLoader_ret e \<noteq> 0"
    using that by (simp add: main_link_check)
  from never instead show ?thesis by blast
qed

theorem link_status_never_queried_witness:
  "files_read env0 \<and> glfwCreateWindow_ret env0 = Some 64 \<and> gladLoadGLLoader_ret env0 = 1
   \<and> glCreateProgram_ret env0 = 3
   \<and> glGetProgramiv_out env0 3 GL_LINK_STATUS = Some 1
   \<and> GlGetProgramiv 3 GL_LINK_STATUS \<notin> set (trace (snd (main env0 frames0)))
   \<and> GlGetProgramiv 3 GL_COMPILE_STATUS \<in> set (trace (snd (main env0 frames0)))
   \<and> Printf ''ERROR::SHADER::PROGRAM::COMPILATION_FAILED\<newline>%s\<newline>'' [[63, 0]]
       \<in> set (trace (snd (main env0 frames0)))"
proof -
  have "files_read env0 \<and> glfwCreateWindow_ret env0 \<noteq> None \<and> gladLoadGLLoader_ret env0 \<noteq> 0"
    "glCreateProgram_ret env0 = 3" "glGetProgramiv_out env0 3 GL_LINK_STATUS = Some 1"
    "glfwCreateWindow_ret env0 = Some 64" "gladLoadGLLoader_ret env0 = 1"
    using files_read_env0(1) by (simp_all add: env0_def)
  moreover have "Printf ''ERROR::SHADER::PROGRAM::COMPILATION_FAILED\<newline>%s\<newline>'' [[63, 0]]
       \<in> set (trace (snd (main env0 frames0)))"
    by (simp add: main_env0)
  ultimately show ?thesis
    using link_status_never_queried [of 3 env0 frames0] by simp
qed

lemma main_program_log:
  assumes "GlGetProgramiv p pname \<in> set (trace (snd (main e frames)))"
  shows "(Printf ''ERROR::SHADER::PROGRAM::COMPILATION_FAILED\<newline>%s\<newline>'' [l]
            \<in> set (trace (snd (main e frames)))
          \<longleftrightarrow> sp_success (snd (main e frames)) = 0 \<and> l = fs_infolog (snd (main e frames)))"
    and "sp_success (snd (main e frames)) = 0 \<Longrightarrow>
         GlGetProgramInfoLog p 512 \<in> set (trace (snd (main e frames)))"
    and "fs_infolog (snd (main e frames)) =
          (if fs_success (snd (main e frames)) = 0
           then out_param (glGetShaderInfoLog_out e (glCreateShader_ret e GL_FRAGMENT_SHADER) 512)
                  (indeterminate_buf e ''fs_infolog'')
           else indeterminate_buf e ''fs_infolog'')"
proof -
  from assms have a: "files_read e" "glfwCreateWindow_ret e \<noteq> None" "gladLoadGLLoader_ret e \<noteq> 0"
    "p = glCreateProgram_ret e"
    by (simp_all add: main_link_check)
  from a(2) obtain w where w: "glfwCreateWindow_ret e = Some w" by blast
  from a(1) obtain vs_code h1 fs_code h2 where r:
    "read_entire_file e ''../src/vertex_shader.glsl'' (start_heap e) = Inr (vs_code, h1)"
    "read_entire_file e ''../src/fragment_shader.glsl'' h1 = Inr (fs_code, h2)"
    by (rule files_readE)
  let ?s = "snd (snd (build_scene e vs_code fs_code (started e w)))"
  obtain evs c ww wh where m: "snd (main e frames) =
      ?s\<lparr>trace := trace ?s @ evs, should_close := c, window_width := ww,
         window_height := wh\<rparr>"
    "list_all (\<lambda>ev. loop_event ev \<or> ev = GlfwTerminate) evs"
    using main_reached [OF r w a(3)] by blast
  have n: "Printf fmt args \<notin> set evs" for fmt args
    using tail_event [OF m(2), of "Printf fmt args"] by auto
  show "(Printf ''ERROR::SHADER::PROGRAM::COMPILATION_FAILED\<newline>%s\<newline>'' [l]
            \<in> set (trace (snd (main e frames)))
          \<longleftrightarrow> sp_success (snd (main e frames)) = 0 \<and> l = fs_infolog (snd (main e frames)))"
    by (simp add: m(1) n scene_program_log)
  show "GlGetProgramInfoLog p 512 \<in> set (trace (snd (main e frames)))"
    if "sp_success (snd (main e frames)) = 0"
    using that scene_program_log_fetched [of e vs_code fs_code w] by (simp add: m(1) a(4))
  show "fs_infolog (snd (main e frames)) =
          (if fs_success (snd (main e frames)) = 0
           then out_param (glGetShaderInfoLog_out e (glCreateShader_ret e GL_FRAGMENT_SHADER) 512)
                  (indeterminate_buf e ''fs_infolog'')
           else indeterminate_buf e ''fs_infolog'')"
    using scene_fs_infolog [of e vs_code fs_code w] by (simp add: m(1))
qed

text \<open>
  C5. In every run in which the status check of line 128 was made and left
  \<^verbatim>\<open>sp_success\<close> at 0: the program's info log was fetched (line 131), the diagnostic of
  line 132 was printed with the buffer \<^verbatim>\<open>fs_infolog\<close> as its argument, and no diagnostic
  of that format was printed with any other argument, so the fetched \<^verbatim>\<open>sp_infolog\<close> is
  not what is printed. \<^verbatim>\<open>fs_infolog\<close> holds the fragment shader's log when the fragment
  shader failed to compile, and its initial garbage otherwise, whichever stage failed.
\<close>

theorem link_failure_prints_fragment_log:
  assumes "GlGetProgramiv p pname \<in> set (trace (snd (main e frames)))"
    and "sp_success (snd (main e frames)) = 0"
  shows "Printf ''ERROR::SHADER::PROGRAM::COMPILATION_FAILED\<newline>%s\<newline>''
           [fs_infolog (snd (main e frames))] \<in> set (trace (snd (main e frames)))
       \<and> GlGetProgramInfoLog p 512 \<in> set (trace (snd (main e frames)))
       \<and> (\<forall>l. Printf ''ERROR::SHADER::PROGRAM::COMPILATION_FAILED\<newline>%s\<newline>'' [l]
                \<in> set (trace (snd (main e frames)))
              \<longrightarrow> l = fs_infolog (snd (main e frames)))
       \<and> fs_infolog (snd (main e frames)) =
          (if fs_success (snd (main e frames)) = 0
           then out_param (glGetShaderInfoLog_out e (glCreateShader_ret e GL_FRAGMENT_SHADER) 512)
                  (indeterminate_buf e ''fs_infolog'')
           else indeterminate_buf e ''fs_infolog'')"
proof -
  note log = main_program_log [OF assms(1)]
  have printed: "Printf ''ERROR::SHADER::PROGRAM::COMPILATION_FAILED\<newline>%s\<newline>''
           [fs_infolog (snd (main e frames))] \<in> set (trace (snd (main e frames)))"
    using log(1) [of "fs_infolog (snd (main e frames))"] assms(2) by simp
  have fetched: "GlGetProgramInfoLog p 512 \<in> set (trace (snd (main e frames)))"
    using log(2) assms(2) by simp
  have only: "\<forall>l. Printf ''ERROR::SHADER::PROGRAM::COMPILATION_FAILED\<newline>%s\<newline>'' [l]
                \<in> set (trace (snd (main e frames)))
              \<longrightarrow> l = fs_infolog (snd (main e frames))"
    using log(1) by simp
  from printed fetched only log(3) show ?thesis by (intro conjI)
qed

theorem link_failure_prints_fragment_log_witness:
  "GlGetProgramiv 3 GL_COMPILE_STATUS \<in> set (trace (snd (main env0 frames0)))
   \<and> sp_success (snd (main env0 frames0)) = 0
   \<and> fs_success (snd (main env0 frames0)) = 1
   \<and> fs_infolog (snd (main env0 frames0)) = [63, 0]
   \<and> sp_infolog (snd (main env0 frames0)) = [108, 0]
   \<and> Printf ''ERROR::SHADER::PROGRAM::COMPILATION_FAILED\<newline>%s\<newline>'' [[63, 0]]
       \<in> set (trace (snd (main env0 frames0)))
   \<and> GlGetProgramInfoLog 3 512 \<in> set (trace (snd (main env0 frames0)))
   \<and> Printf ''ERROR::SHADER::PROGRAM::COMPILATION_FAILED\<newline>%s\<newline>'' [[108, 0]]
       \<notin> set (trace (snd (main env0 frames0)))"
proof -
  have a: "GlGetProgramiv 3 GL_COMPILE_STATUS \<in> set (trace (snd (main env0 frames0)))"
    "sp_success (snd (main env0 frames0)) = 0"
    by (simp_all add: main_env0)
  have b: "fs_success (snd (main env0 frames0)) = 1" "fs_infolog (snd (main env0 frames0)) = [63, 0]"
    "sp_infolog (snd (main env0 frames0)) = [108, 0]"
    by (simp_all add: main_env0)
  from link_failure_prints_fragment_log [OF a]
  have c: "Printf ''ERROR::SHADER::PROGRAM::COMPILATION_FAILED\<newline>%s\<newline>''
           [fs_infolog (snd (main env0 frames0))] \<in> set (trace (snd (main env0 frames0)))"
    "GlGetProgramInfoLog 3 512 \<in> set (trace (snd (main env0 frames0)))"
    "\<And>l. Printf ''ERROR::SHADER::PROGRAM::COMPILATION_FAILED\<newline>%s\<newline>'' [l]
                \<in> set (trace (snd (main env0 frames0)))
              \<Longrightarrow> l = fs_infolog (snd (main env0 frames0))"
    by blast+
  from c(3) [of "[108, 0]"] b(2)
  have "Printf ''ERROR::SHADER::PROGRAM::COMPILATION_FAILED\<newline>%s\<newline>'' [[108, 0]]
       \<notin> set (trace (snd (main env0 frames0)))"
    by auto
  with a b c(1,2) show ?thesis by simp
qed

section \<open>Library initialisation\<close>

lemma malloc_init:
  "malloc (e\<lparr>glfwInit_ret := r\<rparr>) = malloc e"
  by (intro ext) (simp add: malloc_def)

lemma fopen_init:
  "fopen (e\<lparr>glfwInit_ret := r\<rparr>) = fopen e"
  by (intro ext) (simp add: fopen_def)

lemma read_entire_file_init:
  "read_entire_file (e\<lparr>glfwInit_ret := r\<rparr>) = read_entire_file e"
  by (intro ext)
    (simp add: read_entire_file_def fopen_init malloc_init Let_def split_def
      cong: option.case_cong)

lemma build_scene_init:
  "build_scene (e\<lparr>glfwInit_ret := r\<rparr>) = build_scene e"
  by (intro ext) (simp add: build_scene_state)

lemma main_crash_vertex:
  assumes "read_entire_file e ''../src/vertex_shader.glsl'' (start_heap e) = Inl f"
  shows "main e frames = (Crashed f, init_state e)"
  using assms by (simp add: main_def Let_def)

lemma main_crash_fragment:
  assumes "read_entire_file e ''../src/vertex_shader.glsl'' (start_heap e) = Inr (vs_code, h1)"
    and "read_entire_file e ''../src/fragment_shader.glsl'' h1 = Inl f"
  shows "main e frames = (Crashed f, init_state e)"
  using assms by (simp add: main_def Let_def)

lemma main_init:
  "main (e\<lparr>glfwInit_ret := r\<rparr>) frames = main e frames"
proof -
  let ?e = "e\<lparr>glfwInit_ret := r\<rparr>"
  have i: "init_state ?e = init_state e" "started ?e = started e"
    by (simp_all add: init_state_def started_def fun_eq_iff)
  show ?thesis
  proof (cases "read_entire_file e ''../src/vertex_shader.glsl'' (start_heap e)")
    case (Inl f)
    then have "read_entire_file ?e ''../src/vertex_shader.glsl'' (start_heap ?e) = Inl f"
      by (simp add: read_entire_file_init)
    from main_crash_vertex [OF this] main_crash_vertex [OF Inl] show ?thesis
      by (simp add: i)
  next
    case (Inr a)
    obtain vs_code h1 where a: "a = (vs_code, h1)" by (cases a)
    have r1: "read_entire_file e ''../src/vertex_shader.glsl'' (start_heap e) = Inr (vs_code, h1)"
      "read_entire_file ?e ''../src/vertex_shader.glsl'' (start_heap ?e) = Inr (vs_code, h1)"
      using Inr a by (simp_all add: read_entire_file_init)
    show ?thesis
    proof (cases "read_entire_file e ''../src/fragment_shader.glsl'' h1")
      case (Inl f)
      then have "read_entire_file ?e ''../src/fragment_shader.glsl'' h1 = Inl f"
        by (simp add: read_entire_file_init)
      from main_crash_fragment [OF r1(2) this] main_crash_fragment [OF r1(1) Inl]
      show ?thesis by (simp add: i)
    next
      case inr: (Inr b)
      obtain fs_code h2 where b: "b = (fs_code, h2)" by (cases b)
      have r2: "read_entire_file e ''../src/fragment_shader.glsl'' h1 = Inr (fs_code, h2)"
        "read_entire_file ?e ''../src/fragment_shader.glsl'' h1 = Inr (fs_code, h2)"
        using inr b by (simp_all add: read_entire_file_init)
      have fr: "files_read e" "files_read ?e"
        using r1 r2 by (simp_all add: files_read_def)
      show ?thesis
      proof (cases "glfwCreateWindow_ret e")
        case None
        then have "glfwCreateWindow_ret ?e = None" by simp
        from main_no_window [OF fr(2) this] main_no_window [OF fr(1) None]
        show ?thesis by (simp add: i)
      next
        case (Some w)
        then have w: "glfwCreateWindow_ret ?e = Some w" by simp
        show ?thesis
        proof (cases "gladLoadGLLoader_ret e = 0")
          case True
          then have "gladLoadGLLoader_ret ?e = 0" by simp
          from main_no_loader [OF fr(2) w this] main_no_loader [OF fr(1) Some True]
          show ?thesis by (simp add: i)
        next
          case False
          then have "gladLoadGLLoader_ret ?e \<noteq> 0" by simp
          from main_loop [OF r1(2) r2(2) w this] main_loop [OF r1(1) r2(1) Some False]
          show ?thesis by (simp add: i build_scene_init)
        qed
      qed
    qed
  qed
qed

lemma main_first_calls:
  assumes "files_read e"
  shows "take 4 (trace (snd (main e frames))) =
     [GlfwInit, GlfwWindowHint GLFW_CONTEXT_VERSION_MAJOR 3,
      GlfwWindowHint GLFW_CONTEXT_VERSION_MINOR 3,
      GlfwCreateWindow 1280 720 ''OpenGL experiment'']"
proof (cases "glfwCreateWindow_ret e")
  case None
  with main_no_window [OF assms None, of frames] show ?thesis by simp
next
  case (Some w)
  show ?thesis
  proof (cases "gladLoadGLLoader_ret e = 0")
    case True
    with main_no_loader [OF assms Some True, of frames] show ?thesis
      by (simp add: started_def init_state_def)
  next
    case False
    from assms obtain vs_code h1 fs_code h2 where r:
      "read_entire_file e ''../src/vertex_shader.glsl'' (start_heap e) = Inr (vs_code, h1)"
      "read_entire_file e ''../src/fragment_shader.glsl'' h1 = Inr (fs_code, h2)"
      by (rule files_readE)
    let ?s = "snd (snd (build_scene e vs_code fs_code (started e w)))"
    obtain evs c ww wh where m: "snd (main e frames) =
        ?s\<lparr>trace := trace ?s @ evs, should_close := c, window_width := ww,
           window_height := wh\<rparr>"
      using main_reached [OF r Some False] by blast
    show ?thesis
      by (simp add: m build_scene_state Let_def started_def init_state_def)
  qed
qed

text \<open>
  C10. The value \<^verbatim>\<open>glfwInit\<close> returns has no influence on a run: replacing it by any
  other value gives the same outcome and the same state. When both files are read, the
  first four calls are \<^verbatim>\<open>glfwInit\<close>, the two window hints and \<^verbatim>\<open>glfwCreateWindow\<close>, with
  nothing printed in between. When \<^verbatim>\<open>glfwInit\<close> returned 0 and the window and the loader
  succeeded, \<^verbatim>\<open>main\<close> does not return \<open>-1\<close>: it runs the loop.
\<close>

theorem glfwInit_unchecked:
  "main (e\<lparr>glfwInit_ret := r\<rparr>) frames = main e frames
   \<and> (files_read e \<longrightarrow>
        take 4 (trace (snd (main e frames))) =
          [GlfwInit, GlfwWindowHint GLFW_CONTEXT_VERSION_MAJOR 3,
           GlfwWindowHint GLFW_CONTEXT_VERSION_MINOR 3,
           GlfwCreateWindow 1280 720 ''OpenGL experiment''])
   \<and> (files_read e \<and> glfwInit_ret e = 0 \<and> glfwCreateWindow_ret e \<noteq> None
        \<and> gladLoadGLLoader_ret e \<noteq> 0 \<longrightarrow>
        fst (main e frames) = Returned 0 \<or> fst (main e frames) = StillRunning)"
proof -
  have "fst (main e frames) = Returned 0 \<or> fst (main e frames) = StillRunning"
    if "files_read e" "glfwCreateWindow_ret e \<noteq> None" "gladLoadGLLoader_ret e \<noteq> 0"
  proof -
    from that(2) obtain w where "glfwCreateWindow_ret e = Some w" by blast
    from main_loop_outcome(1) [OF that(1) this that(3), of frames] show ?thesis
      by (simp split: if_splits)
  qed
  then show ?thesis
    using main_init [where e = e and r = r and frames = frames]
      main_first_calls [where e = e and frames = frames] by blast
qed

theorem glfwInit_unchecked_witness:
  "files_read (env0\<lparr>glfwInit_ret := 0\<rparr>)
   \<and> glfwCreateWindow_ret (env0\<lparr>glfwInit_ret := 0\<rparr>) = Some 64
   \<and> gladLoadGLLoader_ret (env0\<lparr>glfwInit_ret := 0\<rparr>) = 1
   \<and> glfwInit_ret (env0\<lparr>glfwInit_ret := 0\<rparr>) = 0
   \<and> main (env0\<lparr>glfwInit_ret := 0\<rparr>) frames0 = main env0 frames0
   \<and> take 4 (trace (snd (main (env0\<lparr>glfwInit_ret := 0\<rparr>) frames0))) =
       [GlfwInit, GlfwWindowHint GLFW_CONTEXT_VERSION_MAJOR 3,
        GlfwWindowHint GLFW_CONTEXT_VERSION_MINOR 3,
        GlfwCreateWindow 1280 720 ''OpenGL experiment'']
   \<and> fst (main (env0\<lparr>glfwInit_ret := 0\<rparr>) frames0) = Returned 0"
proof -
  let ?e = "env0\<lparr>glfwInit_ret := 0\<rparr>"
  have h: "files_read ?e" "glfwInit_ret ?e = 0" "glfwCreateWindow_ret ?e \<noteq> None"
    "gladLoadGLLoader_ret ?e \<noteq> 0"
    using files_read_env0(4) by (simp_all add: env0_def)
  have "main ?e frames0 = main env0 frames0"
    using glfwInit_unchecked [where e = env0 and r = 0 and frames = frames0] by blast
  moreover have "take 4 (trace (snd (main ?e frames0))) =
       [GlfwInit, GlfwWindowHint GLFW_CONTEXT_VERSION_MAJOR 3,
        GlfwWindowHint GLFW_CONTEXT_VERSION_MINOR 3,
        GlfwCreateWindow 1280 720 ''OpenGL experiment'']"
    using glfwInit_unchecked [where e = ?e and r = 0 and frames = frames0] h(1) by blast
  moreover have "fst (main env0 frames0) = Returned 0"
    by (simp add: main_env0)
  moreover have "glfwCreateWindow_ret ?e = Some 64" "gladLoadGLLoader_ret ?e = 1"
    by (simp_all add: env0_def)
  ultimately show ?thesis using h(1,2) by simp
qed

end
